theory Spec2Isabelle
  imports Complex_Main
begin

section \<open>Python values and exceptions\<close>

text \<open>
  The two training scripts, \<^verbatim>\<open>src/train.py\<close> and
  \<^verbatim>\<open>src/distiller/teacher_train.py\<close>, are embedded as functions that pass
  the mutable objects (model, optimizer, scheduler, file system, console) explicitly.
  A raised exception is the left injection of a sum; nothing catches exceptions in the
  source, so the first one ends the call.

  Python floats and zero-dimensional tensors are modelled by reals: rounding is not
  modelled, and a division whose divisor is zero is written out as the exception or
  kept away from every result.
\<close>

datatype error =
    AttributeError
  | TypeError
  | IndexError
  | ValueError
  | ZeroDivisionError
  | RuntimeError
  | FileExistsError
  | FileNotFoundError

datatype phase = Train | Val

text \<open>
  \<open>for x in xs: body\<close> where the body may raise: the loop stops at the first
  exception.
\<close>

fun for_each :: "('a \<Rightarrow> 's \<Rightarrow> error + 's) \<Rightarrow> 'a list \<Rightarrow> 's \<Rightarrow> error + 's" where
  "for_each body [] s = Inr s"
| "for_each body (x # xs) s =
     (case body x s of Inl e \<Rightarrow> Inl e | Inr s' \<Rightarrow> for_each body xs s')"

section \<open>Modules, parameters and state dictionaries\<close>

text \<open>
  A module is a class name, an ordered list of named child modules, each with the list
  of its parameters, and the \<^verbatim>\<open>training\<close> flag set by \<^verbatim>\<open>.train()\<close> and
  \<^verbatim>\<open>.eval()\<close>. The type \<open>'t\<close> stands for tensors. A parameter is known by its
  key \<^verbatim>\<open>child.name\<close>, as in the keys of \<^verbatim>\<open>state_dict()\<close>.
\<close>

record 't param =
  pname :: string
  pvalue :: 't
  requires_grad :: bool

record 't nn_module =
  cls :: string
  children :: "(string \<times> 't param list) list"
  train_mode :: bool

type_synonym 't state_dict = "(string \<times> 't) list"

text \<open>
  \<^verbatim>\<open>best_student\<close> and \<^verbatim>\<open>best_teacher\<close> are untyped in the source: the one holds
  an ordered dictionary (\<^verbatim>\<open>copy.deepcopy(student.state_dict())\<close>), the other a
  module (\<^verbatim>\<open>copy.deepcopy(teacher)\<close>).
\<close>

datatype 't pyobj = Module "'t nn_module" | OrderedDict "'t state_dict"

definition param_key :: "string \<Rightarrow> 't param \<Rightarrow> string" where
  "param_key c p = c @ ''.'' @ pname p"

definition child_parameters :: "string \<times> 't param list \<Rightarrow> (string \<times> 't param) list" where
  "child_parameters ch = map (\<lambda>p. (param_key (fst ch) p, p)) (snd ch)"

definition named_parameters :: "'t nn_module \<Rightarrow> (string \<times> 't param) list" where
  "named_parameters m = concat (map child_parameters (children m))"

definition state_dict :: "'t nn_module \<Rightarrow> 't state_dict" where
  "state_dict m = map (\<lambda>kp. (fst kp, pvalue (snd kp))) (named_parameters m)"

text \<open>An in-place change of every parameter object of a module.\<close>

definition map_parameters :: "(string \<Rightarrow> 't param \<Rightarrow> 't param) \<Rightarrow> 't nn_module \<Rightarrow> 't nn_module" where
  "map_parameters f m =
     m\<lparr>children := map (\<lambda>ch. (fst ch, map (\<lambda>p. f (param_key (fst ch) p) p) (snd ch))) (children m)\<rparr>"

text \<open>
  The method call \<^verbatim>\<open>x.state_dict()\<close>. An ordered dictionary has no such attribute.
\<close>

definition call_state_dict :: "'t pyobj \<Rightarrow> error + 't state_dict" where
  "call_state_dict x =
     (case x of Module m \<Rightarrow> Inr (state_dict m) | OrderedDict sd \<Rightarrow> Inl AttributeError)"

text \<open>
  \<^verbatim>\<open>m.load_state_dict(x)\<close> with the default \<^verbatim>\<open>strict=True\<close>: the argument has to be
  a mapping (PyTorch raises \<^verbatim>\<open>TypeError\<close> for anything else; releases before the
  explicit check fail with \<^verbatim>\<open>AttributeError\<close> on \<^verbatim>\<open>x.copy()\<close>), its keys have to
  be the keys of the module (\<^verbatim>\<open>RuntimeError\<close> otherwise), and every parameter takes
  the value stored under its key.
\<close>

definition load_state_dict :: "'t nn_module \<Rightarrow> 't pyobj \<Rightarrow> error + 't nn_module" where
  "load_state_dict m x =
     (case x of
        Module other \<Rightarrow> Inl TypeError
      | OrderedDict sd \<Rightarrow>
          if set (map fst sd) = set (map fst (state_dict m))
          then Inr (map_parameters
                 (\<lambda>k p. case map_of sd k of Some v \<Rightarrow> p\<lparr>pvalue := v\<rparr> | None \<Rightarrow> p) m)
          else Inl RuntimeError)"

definition set_mode :: "phase \<Rightarrow> 't nn_module \<Rightarrow> 't nn_module" where
  "set_mode ph m = m\<lparr>train_mode := (ph = Train)\<rparr>"

section \<open>Optimizer and plateau scheduler\<close>

text \<open>
  \<^verbatim>\<open>optim.Adam\<close> holds references to the parameters it was given (here: their keys),
  its hyperparameters and its moment estimates \<open>'o\<close>. An empty parameter list is
  rejected with \<^verbatim>\<open>ValueError\<close>.
\<close>

record 'o optimizer =
  param_keys :: "string list"
  lr :: real
  betas :: "real \<times> real"
  eps :: real
  weight_decay :: real
  moments :: 'o

definition Adam :: "'o \<Rightarrow> string list \<Rightarrow> real \<Rightarrow> real \<times> real \<Rightarrow> real \<Rightarrow> real \<Rightarrow> error + 'o optimizer" where
  "Adam init ks l bs e wd =
     (if ks = [] then Inl ValueError
      else Inr \<lparr>param_keys = ks, lr = l, betas = bs, eps = e, weight_decay = wd, moments = init\<rparr>)"

text \<open>
  \<^verbatim>\<open>lr_scheduler.ReduceLROnPlateau\<close> with the defaults the source leaves in place:
  \<^verbatim>\<open>mode='min'\<close>, \<^verbatim>\<open>threshold=1e-4\<close> (relative), \<^verbatim>\<open>cooldown=0\<close>, \<^verbatim>\<open>min_lr=0\<close>,
  \<^verbatim>\<open>eps=1e-8\<close>. \<open>best\<close> is \<open>None\<close> while it still holds the initial infinity.
\<close>

datatype plateau_mode = MinMode | MaxMode

record scheduler =
  mode :: plateau_mode
  factor :: real
  patience :: nat
  best :: "real option"
  num_bad_epochs :: nat
  last_epoch :: nat

definition ReduceLROnPlateau :: "plateau_mode \<Rightarrow> real \<Rightarrow> nat \<Rightarrow> error + scheduler" where
  "ReduceLROnPlateau md f pat =
     (if f \<ge> 1 then Inl ValueError
      else Inr \<lparr>mode = md, factor = f, patience = pat, best = None,
                num_bad_epochs = 0, last_epoch = 0\<rparr>)"

definition is_better :: "plateau_mode \<Rightarrow> real \<Rightarrow> real option \<Rightarrow> bool" where
  "is_better md a b =
     (case b of
        None \<Rightarrow> True
      | Some bst \<Rightarrow>
          (case md of
             MinMode \<Rightarrow> a < bst * (1 - 1 / 10000)
           | MaxMode \<Rightarrow> a > bst * (1 / 10000 + 1)))"

definition reduce_lr :: "scheduler \<Rightarrow> 'o optimizer \<Rightarrow> 'o optimizer" where
  "reduce_lr s opt =
     (let old_lr = lr opt; new_lr = max (old_lr * factor s) 0
      in if old_lr - new_lr > 1 / 100000000 then opt\<lparr>lr := new_lr\<rparr> else opt)"

text \<open>\<^verbatim>\<open>scheduler.step(metrics)\<close>; it writes the learning rate of its optimizer.\<close>

definition plateau_step :: "real \<Rightarrow> scheduler \<times> 'o optimizer \<Rightarrow> scheduler \<times> 'o optimizer" where
  "plateau_step current so =
     (let s = fst so; opt = snd so;
          s1 = s\<lparr>last_epoch := last_epoch s + 1\<rparr>;
          s2 = (if is_better (mode s1) current (best s1)
                then s1\<lparr>best := Some current, num_bad_epochs := 0\<rparr>
                else s1\<lparr>num_bad_epochs := num_bad_epochs s1 + 1\<rparr>)
      in if num_bad_epochs s2 > patience s2
         then (s2\<lparr>num_bad_epochs := 0\<rparr>, reduce_lr s2 opt)
         else (s2, opt))"

section \<open>File system and console\<close>

text \<open>
  The file system is the list of directories that exist and the log of the checkpoint
  files written, newest first: the content of a file is the newest entry under its path.
\<close>

record 't storage =
  dirs :: "string list"
  saved :: "(string \<times> 't state_dict) list"

definition isdir :: "'t storage \<Rightarrow> string \<Rightarrow> bool" where
  "isdir st d = (d \<in> set (dirs st))"

definition makedirs :: "string \<Rightarrow> 't storage \<Rightarrow> error + 't storage" where
  "makedirs d st =
     (if d \<in> set (dirs st) \<or> d \<in> fst ` set (saved st) then Inl FileExistsError
      else Inr (st\<lparr>dirs := d # dirs st\<rparr>))"

definition path_join :: "string \<Rightarrow> string \<Rightarrow> string" where
  "path_join a b =
     (if b \<noteq> [] \<and> hd b = CHR ''/'' then b
      else if a = [] \<or> last a = CHR ''/'' then a @ b
      else a @ ''/'' @ b)"

definition dirname :: "string \<Rightarrow> string" where
  "dirname p =
     (let h = rev (dropWhile (\<lambda>c. c \<noteq> CHR ''/'') (rev p))
      in if filter (\<lambda>c. c \<noteq> CHR ''/'') h \<noteq> []
         then rev (dropWhile (\<lambda>c. c = CHR ''/'') (rev h)) else h)"

text \<open>
  \<^verbatim>\<open>torch.save(obj, path)\<close> opens the path for writing, which needs the directory of
  the path to exist; a path without a directory part is in the working directory, and
  the root directory always exists.
\<close>

definition torch_save :: "'t state_dict \<Rightarrow> string \<Rightarrow> 't storage \<Rightarrow> error + 't storage" where
  "torch_save sd path st =
     (if filter (\<lambda>c. c \<noteq> CHR ''/'') (dirname path) = [] \<or> isdir st (dirname path)
      then Inr (st\<lparr>saved := (path, sd) # saved st\<rparr>)
      else Inl FileNotFoundError)"

text \<open>
  Of the console only the metric line of every phase is kept, with the numbers that are
  formatted into it: phase, epoch loss, and the epoch accuracy times one hundred.
\<close>

datatype out_line = Metrics phase real real


section \<open>What the scripts take from their environment\<close>

text \<open>
  The numeric work belongs to PyTorch and to the caller's model and is a parameter of
  the embedding: for a module (its parameter values and its mode) and a batch,
  \<open>loss_item\<close> is \<^verbatim>\<open>loss.item()\<close> and \<open>corrects\<close> is
  \<^verbatim>\<open>torch.sum(pred == targets.data)\<close> of the forward pass, \<open>batch_size\<close> is
  \<^verbatim>\<open>datas.size(0)\<close>, \<open>adam_value\<close> is the value that \<^verbatim>\<open>loss.backward()\<close>
  followed by \<^verbatim>\<open>optimizer.step()\<close> gives the parameter under a key, and
  \<open>adam_moments\<close> the optimizer's new moment estimates. \<open>adam_init\<close> is the state
  of a fresh optimizer and \<open>cuda\<close> says whether a CUDA device is there.
  \<open>loaders\<close> and \<open>dataset_sizes\<close> are the globals imported from \<^verbatim>\<open>data\<close> in
  \<^verbatim>\<open>train.py\<close> and the first two arguments in \<^verbatim>\<open>teacher_train.py\<close>.
\<close>

record ('t, 'b, 'o) env =
  loaders :: "phase \<Rightarrow> 'b list"
  dataset_sizes :: "phase \<Rightarrow> nat"
  batch_size :: "'b \<Rightarrow> nat"
  loss_item :: "'t nn_module \<Rightarrow> 'b \<Rightarrow> real"
  corrects :: "'t nn_module \<Rightarrow> 'b \<Rightarrow> nat"
  adam_value :: "'o optimizer \<Rightarrow> 't nn_module \<Rightarrow> 'b \<Rightarrow> string \<Rightarrow> 't"
  adam_moments :: "'o optimizer \<Rightarrow> 't nn_module \<Rightarrow> 'b \<Rightarrow> 'o"
  adam_init :: 'o
  cuda :: bool

text \<open>
  The objects a call of \<^verbatim>\<open>train\<close> reads and writes: its arguments, namely the live
  model (\<^verbatim>\<open>student\<close> or \<^verbatim>\<open>teacher\<close>), the best snapshot and its accuracy, the
  optimizer and the scheduler, and with them the file system and the console. The caller
  sees the changes made to the model, as it does in Python. The argument
  \<^verbatim>\<open>criterion\<close> is \<^verbatim>\<open>nn.CrossEntropyLoss()\<close> in both scripts and belongs to
  \<open>loss_item\<close>.
\<close>

record ('t, 'o) run =
  model :: "'t nn_module"
  best_model :: "'t pyobj"
  best_acc :: real
  optimizer :: "'o optimizer"
  sched :: scheduler
  disk :: "'t storage"
  console :: "out_line list"

section \<open>The batch loop, common to both scripts\<close>

text \<open>
  \<^verbatim>\<open>optimizer.step()\<close> after \<^verbatim>\<open>loss.backward()\<close>: a parameter changes when the
  optimizer holds it and it has a gradient, that is when \<^verbatim>\<open>requires_grad\<close> is set.
  \<^verbatim>\<open>optimizer.zero_grad()\<close> comes before every backward pass, so gradients carry
  nothing from one batch to the next and are not part of the state.
\<close>

definition optimizer_step ::
  "('t, 'b, 'o) env \<Rightarrow> 'b \<Rightarrow> 't nn_module \<times> 'o optimizer \<Rightarrow> 't nn_module \<times> 'o optimizer" where
  "optimizer_step E b mo =
     (let m = fst mo; opt = snd mo
      in (map_parameters
            (\<lambda>k p. if k \<in> set (param_keys opt) \<and> requires_grad p
                   then p\<lparr>pvalue := adam_value E opt m b k\<rparr> else p) m,
          opt\<lparr>moments := adam_moments E opt m b\<rparr>))"

text \<open>
  One pass of \<^verbatim>\<open>for datas, targets in tqdm(loaders[phase])\<close> over the model,
  the optimizer, \<^verbatim>\<open>running_loss\<close> and \<^verbatim>\<open>running_corrects\<close>.
\<close>

definition batch_body ::
  "('t, 'b, 'o) env \<Rightarrow> phase \<Rightarrow> 'b \<Rightarrow> 't nn_module \<times> 'o optimizer \<times> real \<times> nat
     \<Rightarrow> 't nn_module \<times> 'o optimizer \<times> real \<times> nat" where
  "batch_body E ph b acc =
     (case acc of (m, opt, running_loss, running_corrects) \<Rightarrow>
        let loss = loss_item E m b;
            c = corrects E m b;
            mo = (if ph = Train then optimizer_step E b (m, opt) else (m, opt))
        in (fst mo, snd mo, running_loss + loss * real (batch_size E b), running_corrects + c))"

definition batch_loop ::
  "('t, 'b, 'o) env \<Rightarrow> phase \<Rightarrow> 't nn_module \<Rightarrow> 'o optimizer
     \<Rightarrow> 't nn_module \<times> 'o optimizer \<times> real \<times> nat" where
  "batch_loop E ph m opt = fold (batch_body E ph) (loaders E ph) (set_mode ph m, opt, 0, 0)"

section \<open>\<^verbatim>\<open>src/train.py\<close>\<close>

text \<open>
  The body of \<^verbatim>\<open>for phase in ['train', 'val']\<close> of \<^verbatim>\<open>train\<close>.
  \<^verbatim>\<open>running_corrects\<close> starts as the float \<^verbatim>\<open>0.0\<close> and is a tensor only after
  the first batch, so \<^verbatim>\<open>running_corrects.double()\<close> raises \<^verbatim>\<open>AttributeError\<close>
  when the loader was empty; \<^verbatim>\<open>running_loss\<close> is a float, so dividing it by a
  dataset size of zero raises \<^verbatim>\<open>ZeroDivisionError\<close>.
\<close>

definition train_phase ::
  "('t, 'b, 'o) env \<Rightarrow> string \<Rightarrow> phase \<Rightarrow> ('t, 'o) run \<Rightarrow> error + ('t, 'o) run" where
  "train_phase E path_save_weight ph r =
     (case batch_loop E ph (model r) (optimizer r) of
        (student, opt, running_loss, running_corrects) \<Rightarrow>
          let n = dataset_sizes E ph in
          (case (if ph = Train
                 then (if loaders E ph = [] then Inl AttributeError
                       else Inr (plateau_step (100 * real running_corrects / real n) (sched r, opt)))
                 else Inr (sched r, opt)) of
             Inl e \<Rightarrow> Inl e
           | Inr (scheduler, opt') \<Rightarrow>
               if n = 0 then Inl ZeroDivisionError
               else if loaders E ph = [] then Inl AttributeError
               else
                 let epoch_loss = running_loss / real n;
                     epoch_acc = real running_corrects / real n;
                     r' = r\<lparr>model := student, optimizer := opt', sched := scheduler,
                            console := console r @ [Metrics ph epoch_loss (100 * epoch_acc)]\<rparr>
                 in if ph = Val \<and> epoch_acc > best_acc r
                    then (case torch_save (state_dict student) path_save_weight (disk r) of
                            Inl e \<Rightarrow> Inl e
                          | Inr d \<Rightarrow>
                              Inr (r'\<lparr>best_acc := epoch_acc,
                                       best_model := OrderedDict (state_dict student),
                                       disk := d\<rparr>))
                    else Inr r'))"

text \<open>\<^verbatim>\<open>train\<close>: \<^verbatim>\<open>for epoch in range(epochs)\<close> around the two phases.\<close>

definition train ::
  "('t, 'b, 'o) env \<Rightarrow> int \<Rightarrow> string \<Rightarrow> ('t, 'o) run \<Rightarrow> error + ('t, 'o) run" where
  "train E epochs path_save_weight r =
     for_each (\<lambda>epoch. for_each (train_phase E path_save_weight) [Train, Val])
       [0 ..< nat epochs] r"


text \<open>
  The first lines of \<^verbatim>\<open>train_kd\<close>: the path of the checkpoint file. The test
  before \<^verbatim>\<open>os.makedirs\<close> is \<^verbatim>\<open>os.path.isdir('Weights')\<close>, without a negation.
\<close>

definition train_kd_path ::
  "'t nn_module \<Rightarrow> string option \<Rightarrow> 't storage \<Rightarrow> error + string \<times> 't storage" where
  "train_kd_path student path_save_weight d =
     (case path_save_weight of
        Some p \<Rightarrow> Inr (p, d)
      | None \<Rightarrow>
          (case (if isdir d ''Weights'' then makedirs ''Weights'' d else Inr d) of
             Inl e \<Rightarrow> Inl e
           | Inr d' \<Rightarrow> Inr (path_join ''Weights'' (cls student @ ''.pth''), d')))"

text \<open>\<^verbatim>\<open>student.head.parameters()\<close>: the attribute has to exist.\<close>

definition head_parameters :: "'t nn_module \<Rightarrow> error + string list" where
  "head_parameters student =
     (case map_of (children student) ''head'' of
        None \<Rightarrow> Inl AttributeError
      | Some ps \<Rightarrow> Inr (map (param_key ''head'') ps))"

text \<open>
  \<^verbatim>\<open>train_kd\<close> up to the first call of \<^verbatim>\<open>train\<close>: optimizer over the head,
  scheduler, and the best state seeded with the state dictionary of the student and
  accuracy zero. The argument \<^verbatim>\<open>teacher\<close> is only moved to the device.
\<close>

definition train_kd_init ::
  "('t, 'b, 'o) env \<Rightarrow> 't nn_module \<Rightarrow> 't nn_module \<Rightarrow> string option \<Rightarrow> 't storage \<Rightarrow> out_line list
     \<Rightarrow> error + string \<times> ('t, 'o) run" where
  "train_kd_init E student teacher path_save_weight d out =
     (case train_kd_path student path_save_weight d of
        Inl e \<Rightarrow> Inl e
      | Inr (path, d') \<Rightarrow>
          (case head_parameters student of
             Inl e \<Rightarrow> Inl e
           | Inr ks \<Rightarrow>
               (case Adam (adam_init E) ks (1 / 1000) (9 / 10, 999 / 1000) (1 / 100000000) (1 / 100000) of
                  Inl e \<Rightarrow> Inl e
                | Inr opt \<Rightarrow>
                    (case ReduceLROnPlateau MaxMode (1 / 10) 3 of
                       Inl e \<Rightarrow> Inl e
                     | Inr s \<Rightarrow>
                         Inr (path,
                              \<lparr>model = student, best_model = OrderedDict (state_dict student),
                               best_acc = 0, optimizer = opt, sched = s, disk = d',
                               console = out\<rparr>)))))"

definition train_kd_stage1 ::
  "('t, 'b, 'o) env \<Rightarrow> int \<Rightarrow> 't nn_module \<Rightarrow> 't nn_module \<Rightarrow> string option \<Rightarrow> 't storage
     \<Rightarrow> out_line list \<Rightarrow> error + string \<times> ('t, 'o) run" where
  "train_kd_stage1 E epochs student teacher path_save_weight d out =
     (case train_kd_init E student teacher path_save_weight d out of
        Inl e \<Rightarrow> Inl e
      | Inr (path, r) \<Rightarrow>
          (case train E epochs path r of Inl e \<Rightarrow> Inl e | Inr r1 \<Rightarrow> Inr (path, r1)))"

text \<open>
  Between the two calls of \<^verbatim>\<open>train\<close>: reload the best state, set
  \<^verbatim>\<open>requires_grad\<close> everywhere, a new optimizer over all parameters and a new
  scheduler, for which no \<^verbatim>\<open>mode\<close> is given.
\<close>

definition train_kd_unfreeze ::
  "('t, 'b, 'o) env \<Rightarrow> int \<Rightarrow> 't nn_module \<Rightarrow> 't nn_module \<Rightarrow> string option \<Rightarrow> 't storage
     \<Rightarrow> out_line list \<Rightarrow> error + string \<times> ('t, 'o) run" where
  "train_kd_unfreeze E epochs student teacher path_save_weight d out =
     (case train_kd_stage1 E epochs student teacher path_save_weight d out of
        Inl e \<Rightarrow> Inl e
      | Inr (path, r1) \<Rightarrow>
          (case load_state_dict (model r1) (best_model r1) of
             Inl e \<Rightarrow> Inl e
           | Inr loaded \<Rightarrow>
               let student' = map_parameters (\<lambda>k p. p\<lparr>requires_grad := True\<rparr>) loaded in
               (case Adam (adam_init E) (map fst (named_parameters student'))
                       (1 / 10000) (9 / 10, 999 / 1000) (1 / 100000000) 0 of
                  Inl e \<Rightarrow> Inl e
                | Inr opt \<Rightarrow>
                    (case ReduceLROnPlateau MinMode (1 / 10) 2 of
                       Inl e \<Rightarrow> Inl e
                     | Inr s \<Rightarrow>
                         Inr (path, r1\<lparr>model := student', optimizer := opt, sched := s\<rparr>)))))"

definition train_kd_stage2 ::
  "('t, 'b, 'o) env \<Rightarrow> int \<Rightarrow> 't nn_module \<Rightarrow> 't nn_module \<Rightarrow> string option \<Rightarrow> 't storage
     \<Rightarrow> out_line list \<Rightarrow> error + string \<times> ('t, 'o) run" where
  "train_kd_stage2 E epochs student teacher path_save_weight d out =
     (case train_kd_unfreeze E epochs student teacher path_save_weight d out of
        Inl e \<Rightarrow> Inl e
      | Inr (path, r) \<Rightarrow>
          (case train E epochs path r of Inl e \<Rightarrow> Inl e | Inr r2 \<Rightarrow> Inr (path, r2)))"

text \<open>
  \<^verbatim>\<open>train_kd\<close>: the last two statements,
  \<^verbatim>\<open>torch.save(best_student.state_dict(), path_save_weight)\<close> and
  \<^verbatim>\<open>return best_student\<close>. The result is the returned object with the objects the
  call has changed.
\<close>

definition train_kd ::
  "('t, 'b, 'o) env \<Rightarrow> int \<Rightarrow> 't nn_module \<Rightarrow> 't nn_module \<Rightarrow> string option \<Rightarrow> 't storage
     \<Rightarrow> out_line list \<Rightarrow> error + 't pyobj \<times> ('t, 'o) run" where
  "train_kd E epochs student teacher path_save_weight d out =
     (case train_kd_stage2 E epochs student teacher path_save_weight d out of
        Inl e \<Rightarrow> Inl e
      | Inr (path, r2) \<Rightarrow>
          (case call_state_dict (best_model r2) of
             Inl e \<Rightarrow> Inl e
           | Inr sd \<Rightarrow>
               (case torch_save sd path (disk r2) of
                  Inl e \<Rightarrow> Inl e
                | Inr d' \<Rightarrow> Inr (best_model r2, r2\<lparr>disk := d'\<rparr>))))"

section \<open>\<^verbatim>\<open>src/distiller/teacher_train.py\<close>\<close>

text \<open>
  The phase body of this script's \<^verbatim>\<open>train\<close>: the two divisions come first, the
  scheduler is stepped with \<^verbatim>\<open>100. * epoch_acc\<close>, and the best state is a deep copy
  of the module.
\<close>

definition teacher_train_phase ::
  "('t, 'b, 'o) env \<Rightarrow> string \<Rightarrow> phase \<Rightarrow> ('t, 'o) run \<Rightarrow> error + ('t, 'o) run" where
  "teacher_train_phase E path_save_weight ph r =
     (case batch_loop E ph (model r) (optimizer r) of
        (teacher, opt, running_loss, running_corrects) \<Rightarrow>
          let n = dataset_sizes E ph in
          if n = 0 then Inl ZeroDivisionError
          else if loaders E ph = [] then Inl AttributeError
          else
            let epoch_loss = running_loss / real n;
                epoch_acc = real running_corrects / real n;
                so = (if ph = Train then plateau_step (100 * epoch_acc) (sched r, opt)
                      else (sched r, opt));
                r' = r\<lparr>model := teacher, optimizer := snd so, sched := fst so,
                       console := console r @ [Metrics ph epoch_loss (100 * epoch_acc)]\<rparr>
            in if ph = Val \<and> epoch_acc > best_acc r
               then (case torch_save (state_dict teacher) path_save_weight (disk r) of
                       Inl e \<Rightarrow> Inl e
                     | Inr d \<Rightarrow>
                         Inr (r'\<lparr>best_acc := epoch_acc, best_model := Module teacher,
                                  disk := d\<rparr>))
               else Inr r')"

definition teacher_train ::
  "('t, 'b, 'o) env \<Rightarrow> int \<Rightarrow> string \<Rightarrow> ('t, 'o) run \<Rightarrow> error + ('t, 'o) run" where
  "teacher_train E epochs path_save_weight r =
     for_each (\<lambda>epoch. for_each (teacher_train_phase E path_save_weight) [Train, Val])
       [0 ..< nat epochs] r"

definition training_path ::
  "'t nn_module \<Rightarrow> string option \<Rightarrow> 't storage \<Rightarrow> error + string \<times> 't storage" where
  "training_path teacher path_save_weight d =
     (case path_save_weight of
        Some p \<Rightarrow> Inr (p, d)
      | None \<Rightarrow>
          (case (if \<not> isdir d ''Weights'' then makedirs ''Weights'' d else Inr d) of
             Inl e \<Rightarrow> Inl e
           | Inr d' \<Rightarrow> Inr (path_join ''Weights'' (cls teacher @ ''.pth''), d')))"

text \<open>\<^verbatim>\<open>list(teacher.children())[-1].parameters()\<close>: there has to be a child.\<close>

definition last_child_parameters :: "'t nn_module \<Rightarrow> error + string list" where
  "last_child_parameters teacher =
     (if children teacher = [] then Inl IndexError
      else Inr (map fst (child_parameters (last (children teacher)))))"

text \<open>
  \<^verbatim>\<open>training\<close> up to the first call of \<^verbatim>\<open>train\<close>. The banner asks for
  \<^verbatim>\<open>torch.cuda.get_device_name(0)\<close>, which raises without a CUDA device.
\<close>

definition training_init ::
  "('t, 'b, 'o) env \<Rightarrow> 't nn_module \<Rightarrow> string option \<Rightarrow> 't storage \<Rightarrow> out_line list
     \<Rightarrow> error + string \<times> ('t, 'o) run" where
  "training_init E teacher path_save_weight d out =
     (case training_path teacher path_save_weight d of
        Inl e \<Rightarrow> Inl e
      | Inr (path, d') \<Rightarrow>
          if \<not> cuda E then Inl RuntimeError
          else
            (case last_child_parameters teacher of
               Inl e \<Rightarrow> Inl e
             | Inr ks \<Rightarrow>
                 (case Adam (adam_init E) ks (1 / 1000) (9 / 10, 999 / 1000) (1 / 100000000) (1 / 100000) of
                    Inl e \<Rightarrow> Inl e
                  | Inr opt \<Rightarrow>
                      (case ReduceLROnPlateau MaxMode (1 / 2) 3 of
                         Inl e \<Rightarrow> Inl e
                       | Inr s \<Rightarrow>
                           Inr (path,
                                \<lparr>model = teacher, best_model = Module teacher, best_acc = 0,
                                 optimizer = opt, sched = s, disk = d', console = out\<rparr>)))))"

definition training_stage1 ::
  "('t, 'b, 'o) env \<Rightarrow> int \<Rightarrow> 't nn_module \<Rightarrow> string option \<Rightarrow> 't storage \<Rightarrow> out_line list
     \<Rightarrow> error + string \<times> ('t, 'o) run" where
  "training_stage1 E epochs_freeze teacher path_save_weight d out =
     (case training_init E teacher path_save_weight d out of
        Inl e \<Rightarrow> Inl e
      | Inr (path, r) \<Rightarrow>
          (case teacher_train E epochs_freeze path r of
             Inl e \<Rightarrow> Inl e
           | Inr r1 \<Rightarrow> Inr (path, r1)))"

definition training_unfreeze ::
  "('t, 'b, 'o) env \<Rightarrow> int \<Rightarrow> 't nn_module \<Rightarrow> string option \<Rightarrow> 't storage \<Rightarrow> out_line list
     \<Rightarrow> error + string \<times> ('t, 'o) run" where
  "training_unfreeze E epochs_freeze teacher path_save_weight d out =
     (case training_stage1 E epochs_freeze teacher path_save_weight d out of
        Inl e \<Rightarrow> Inl e
      | Inr (path, r1) \<Rightarrow>
          (case load_state_dict (model r1) (best_model r1) of
             Inl e \<Rightarrow> Inl e
           | Inr loaded \<Rightarrow>
               let teacher' = map_parameters (\<lambda>k p. p\<lparr>requires_grad := True\<rparr>) loaded in
               (case Adam (adam_init E) (map fst (named_parameters teacher'))
                       (1 / 10000) (9 / 10, 999 / 1000) (1 / 100000000) 0 of
                  Inl e \<Rightarrow> Inl e
                | Inr opt \<Rightarrow>
                    (case ReduceLROnPlateau MinMode (1 / 2) 2 of
                       Inl e \<Rightarrow> Inl e
                     | Inr s \<Rightarrow>
                         Inr (path, r1\<lparr>model := teacher', optimizer := opt, sched := s\<rparr>)))))"

definition training_stage2 ::
  "('t, 'b, 'o) env \<Rightarrow> int \<Rightarrow> int \<Rightarrow> 't nn_module \<Rightarrow> string option \<Rightarrow> 't storage
     \<Rightarrow> out_line list \<Rightarrow> error + string \<times> ('t, 'o) run" where
  "training_stage2 E epochs_freeze epochs_unfreeze teacher path_save_weight d out =
     (case training_unfreeze E epochs_freeze teacher path_save_weight d out of
        Inl e \<Rightarrow> Inl e
      | Inr (path, r) \<Rightarrow>
          (case teacher_train E epochs_unfreeze path r of
             Inl e \<Rightarrow> Inl e
           | Inr r2 \<Rightarrow> Inr (path, r2)))"

definition training ::
  "('t, 'b, 'o) env \<Rightarrow> int \<Rightarrow> int \<Rightarrow> 't nn_module \<Rightarrow> string option \<Rightarrow> 't storage
     \<Rightarrow> out_line list \<Rightarrow> error + 't pyobj \<times> ('t, 'o) run" where
  "training E epochs_freeze epochs_unfreeze teacher path_save_weight d out =
     (case training_stage2 E epochs_freeze epochs_unfreeze teacher path_save_weight d out of
        Inl e \<Rightarrow> Inl e
      | Inr (path, r2) \<Rightarrow>
          (case call_state_dict (best_model r2) of
             Inl e \<Rightarrow> Inl e
           | Inr sd \<Rightarrow>
               (case torch_save sd path (disk r2) of
                  Inl e \<Rightarrow> Inl e
                | Inr d' \<Rightarrow> Inr (best_model r2, r2\<lparr>disk := d'\<rparr>))))"


section \<open>Derived notions used in the statements\<close>

text \<open>
  \<^verbatim>\<open>epoch_loss\<close> and \<^verbatim>\<open>epoch_acc\<close> as the phase body computes them from the
  batch loop, and the metric line it prints.
\<close>

definition epoch_loss :: "('t, 'b, 'o) env \<Rightarrow> phase \<Rightarrow> ('t, 'o) run \<Rightarrow> real" where
  "epoch_loss E ph r =
     (case batch_loop E ph (model r) (optimizer r) of
        (m, opt, running_loss, running_corrects) \<Rightarrow> running_loss / real (dataset_sizes E ph))"

definition epoch_acc :: "('t, 'b, 'o) env \<Rightarrow> phase \<Rightarrow> ('t, 'o) run \<Rightarrow> real" where
  "epoch_acc E ph r =
     (case batch_loop E ph (model r) (optimizer r) of
        (m, opt, running_loss, running_corrects) \<Rightarrow>
          real running_corrects / real (dataset_sizes E ph))"

definition metrics_line :: "('t, 'b, 'o) env \<Rightarrow> phase \<Rightarrow> ('t, 'o) run \<Rightarrow> out_line" where
  "metrics_line E ph r = Metrics ph (epoch_loss E ph r) (100 * epoch_acc E ph r)"

text \<open>The validation accuracies on the console, oldest first.\<close>

fun val_accuracies :: "out_line list \<Rightarrow> real list" where
  "val_accuracies [] = []"
| "val_accuracies (Metrics ph l a # ls) =
     (if ph = Val then a / 100 # val_accuracies ls else val_accuracies ls)"

text \<open>
  The specification's best-state rule, written from its words: starting from a best
  accuracy, the best state is reassigned by exactly those accuracies of the sequence that
  strictly exceed the best so far. The result lists the values the best accuracy takes.
\<close>

fun improvements :: "real \<Rightarrow> real list \<Rightarrow> real list" where
  "improvements b [] = []"
| "improvements b (a # as) = (if a > b then a # improvements a as else improvements b as)"

text \<open>The parameter values a best snapshot holds, whichever of the two kinds it is.\<close>

definition checkpoint_of :: "'t pyobj \<Rightarrow> 't state_dict" where
  "checkpoint_of x = (case x of Module m \<Rightarrow> state_dict m | OrderedDict sd \<Rightarrow> sd)"

text \<open>
  The states a loop passes through, one after each iteration that returns, and with
  them the state of \<^verbatim>\<open>train\<close> at the end of every epoch: its model is the live
  model as the validate phase of that epoch saw it and left it.
\<close>

fun for_each_trace :: "('a \<Rightarrow> 's \<Rightarrow> error + 's) \<Rightarrow> 'a list \<Rightarrow> 's \<Rightarrow> 's list" where
  "for_each_trace body [] s = []"
| "for_each_trace body (x # xs) s =
     (case body x s of Inl e \<Rightarrow> [] | Inr s' \<Rightarrow> s' # for_each_trace body xs s')"

definition train_trace ::
  "('t, 'b, 'o) env \<Rightarrow> int \<Rightarrow> string \<Rightarrow> ('t, 'o) run \<Rightarrow> ('t, 'o) run list" where
  "train_trace E epochs path_save_weight r =
     for_each_trace (\<lambda>epoch. for_each (train_phase E path_save_weight) [Train, Val])
       [0 ..< nat epochs] r"

definition teacher_train_trace ::
  "('t, 'b, 'o) env \<Rightarrow> int \<Rightarrow> string \<Rightarrow> ('t, 'o) run \<Rightarrow> ('t, 'o) run list" where
  "teacher_train_trace E epochs path_save_weight r =
     for_each_trace (\<lambda>epoch. for_each (teacher_train_phase E path_save_weight) [Train, Val])
       [0 ..< nat epochs] r"

text \<open>
  The specification's rule for one validate phase after the other, written from its
  words, on the best accuracy, the best checkpoint and the files written (newest first):
  ``if epoch accuracy exceeds the best accuracy so far: update best accuracy, deep-copy
  current model state as new best checkpoint, and write the checkpoint to durable
  storage''. An observation is the epoch accuracy of a validate phase with the live
  model of that phase; \<open>snap\<close> is the copy that is kept, and the file holds the state
  dictionary of the live model.
\<close>

fun best_state_rule ::
  "('t nn_module \<Rightarrow> 't pyobj) \<Rightarrow> string \<Rightarrow> (real \<times> 't nn_module) list
     \<Rightarrow> real \<times> 't pyobj \<times> (string \<times> 't state_dict) list
     \<Rightarrow> real \<times> 't pyobj \<times> (string \<times> 't state_dict) list" where
  "best_state_rule snap path [] b = b"
| "best_state_rule snap path (ob # obs) b =
     (if fst ob > fst b
      then best_state_rule snap path obs
             (fst ob, snap (snd ob), (path, state_dict (snd ob)) # snd (snd b))
      else best_state_rule snap path obs b)"

text \<open>
  A run from \<open>r\<close> to \<open>r'\<close> with the observations \<open>obs\<close> follows the best-state
  rule: best accuracy, best snapshot and the files on disk are what the rule makes of
  them, so every strict improvement copies the live model of its validate phase and
  writes the state dictionary of that model, and nothing else touches them. Spelled out
  for the accuracies alone: the best accuracy is the last improvement, every improvement
  wrote one file under the checkpoint path and nothing else was written, and the best
  snapshot holds the content of the newest file (or is the old snapshot when nothing
  improved).
\<close>

definition best_tracked ::
  "('t nn_module \<Rightarrow> 't pyobj) \<Rightarrow> string \<Rightarrow> (real \<times> 't nn_module) list
     \<Rightarrow> ('t, 'o) run \<Rightarrow> ('t, 'o) run \<Rightarrow> bool" where
  "best_tracked snap path obs r r' =
     (let imp = improvements (best_acc r) (map fst obs); k = length imp
      in (best_acc r', best_model r', saved (disk r')) =
           best_state_rule snap path obs (best_acc r, best_model r, saved (disk r)) \<and>
         best_acc r' = last (best_acc r # imp) \<and>
         dirs (disk r') = dirs (disk r) \<and>
         length (saved (disk r')) = length (saved (disk r)) + k \<and>
         drop k (saved (disk r')) = saved (disk r) \<and>
         map fst (take k (saved (disk r'))) = replicate k path \<and>
         (if imp = [] then best_model r' = best_model r
          else checkpoint_of (best_model r') = snd (hd (saved (disk r')))))"

text \<open>
  The parameters that do not belong to the given keys (with \<^verbatim>\<open>head\<close> keys: the
  backbone), each with its value and flag, and the \<^verbatim>\<open>requires_grad\<close> flag of every
  parameter.
\<close>

definition backbone_parameters :: "string list \<Rightarrow> 't nn_module \<Rightarrow> (string \<times> 't param) list" where
  "backbone_parameters head_keys m =
     filter (\<lambda>kp. fst kp \<notin> set head_keys) (named_parameters m)"

definition trainable_flags :: "'t nn_module \<Rightarrow> (string \<times> bool) list" where
  "trainable_flags m = map (\<lambda>kp. (fst kp, requires_grad (snd kp))) (named_parameters m)"

section \<open>A small concrete run\<close>

text \<open>
  Tensors are natural numbers here. The network has one backbone and one head
  parameter, both with \<^verbatim>\<open>requires_grad\<close> set, as PyTorch creates them. Every phase has
  one batch of ten examples, an optimizer step adds one to a parameter, and the number of
  correct predictions depends on the head parameter: 5, 7, 6 and 9 of 10 for the values
  1, 2, 3 and 4.
\<close>

definition demo_value :: "nat nn_module \<Rightarrow> string \<Rightarrow> nat" where
  "demo_value m k = (case map_of (state_dict m) k of Some v \<Rightarrow> v | None \<Rightarrow> 0)"

definition demo_corrects :: "nat \<Rightarrow> nat" where
  "demo_corrects v =
     (if v = 1 then 5 else if v = 2 then 7 else if v = 3 then 6 else if v = 4 then 9 else 0)"

definition demo_env :: "(nat, nat, unit) env" where
  "demo_env =
     \<lparr>loaders = (\<lambda>ph. [0]), dataset_sizes = (\<lambda>ph. 10), batch_size = (\<lambda>b. 10),
      loss_item = (\<lambda>m b. 0),
      corrects = (\<lambda>m b. demo_corrects (demo_value m ''head.weight'')),
      adam_value = (\<lambda>opt m b k. demo_value m k + 1),
      adam_moments = (\<lambda>opt m b. ()), adam_init = (), cuda = True\<rparr>"

definition demo_net :: "nat nn_module" where
  "demo_net =
     \<lparr>cls = ''Net'',
      children =
        [(''backbone'', [\<lparr>pname = ''weight'', pvalue = 0, requires_grad = True\<rparr>]),
         (''head'', [\<lparr>pname = ''weight'', pvalue = 0, requires_grad = True\<rparr>])],
      train_mode = False\<rparr>"

definition demo_disk :: "nat storage" where
  "demo_disk = \<lparr>dirs = [], saved = []\<rparr>"

text \<open>The arguments of the first call of \<^verbatim>\<open>train\<close> in \<^verbatim>\<open>train_kd\<close> and in \<^verbatim>\<open>training\<close>.\<close>

definition demo_optimizer :: "unit optimizer" where
  "demo_optimizer =
     \<lparr>param_keys = [''head.weight''], lr = 1 / 1000, betas = (9 / 10, 999 / 1000),
      eps = 1 / 100000000, weight_decay = 1 / 100000, moments = ()\<rparr>"

definition demo_run :: "(nat, unit) run" where
  "demo_run =
     \<lparr>model = demo_net, best_model = OrderedDict (state_dict demo_net), best_acc = 0,
      optimizer = demo_optimizer,
      sched = \<lparr>mode = MaxMode, factor = 1 / 10, patience = 3, best = None,
               num_bad_epochs = 0, last_epoch = 0\<rparr>,
      disk = demo_disk, console = []\<rparr>"

definition demo_teacher_run :: "(nat, unit) run" where
  "demo_teacher_run =
     \<lparr>model = demo_net, best_model = Module demo_net, best_acc = 0,
      optimizer = demo_optimizer,
      sched = \<lparr>mode = MaxMode, factor = 1 / 2, patience = 3, best = None,
               num_bad_epochs = 0, last_epoch = 0\<rparr>,
      disk = demo_disk, console = []\<rparr>"

text \<open>A scheduler that has seen three steps without improvement.\<close>

definition demo_stagnant :: scheduler where
  "demo_stagnant =
     \<lparr>mode = MaxMode, factor = 1 / 2, patience = 3, best = Some 50, num_bad_epochs = 3,
      last_epoch = 4\<rparr>"

section \<open>Relations between the states of a run\<close>

text \<open>
  A phase either keeps the best state and the disk, or takes a new best state with one
  write; \<open>tracked_by\<close> is the part of \<open>best_tracked\<close> about the accuracies, with
  the files written made explicit.
  \<open>same_frame\<close>, \<open>same_hyper\<close> and \<open>stage_frame\<close> say what training leaves
  alone: the parameters outside the optimizer's keys, every flag and key, the optimizer's
  hyperparameters and the configuration of the scheduler.
\<close>

definition keeps_best :: "('t, 'o) run \<Rightarrow> ('t, 'o) run \<Rightarrow> bool" where
  "keeps_best r r' =
     (best_acc r' = best_acc r \<and> best_model r' = best_model r \<and> disk r' = disk r)"

definition takes_best :: "string \<Rightarrow> real \<Rightarrow> ('t, 'o) run \<Rightarrow> ('t, 'o) run \<Rightarrow> bool" where
  "takes_best path a r r' =
     (best_acc r' = a \<and> checkpoint_of (best_model r') = state_dict (model r') \<and>
      dirs (disk r') = dirs (disk r) \<and>
      saved (disk r') = (path, state_dict (model r')) # saved (disk r))"

definition tracked_by :: "string \<Rightarrow> real list \<Rightarrow> ('t, 'o) run \<Rightarrow> ('t, 'o) run \<Rightarrow> (string \<times> 't state_dict) list \<Rightarrow> bool" where
  "tracked_by path imp r r' ws =
     (best_acc r' = last (best_acc r # imp) \<and>
      dirs (disk r') = dirs (disk r) \<and>
      saved (disk r') = ws @ saved (disk r) \<and>
      length ws = length imp \<and>
      map fst ws = replicate (length imp) path \<and>
      (if imp = [] then best_model r' = best_model r
       else checkpoint_of (best_model r') = snd (hd ws)))"

definition same_frame :: "string list \<Rightarrow> 't nn_module \<Rightarrow> 't nn_module \<Rightarrow> bool" where
  "same_frame ks m m' =
     (backbone_parameters ks m' = backbone_parameters ks m \<and>
      trainable_flags m' = trainable_flags m \<and>
      map fst (named_parameters m') = map fst (named_parameters m) \<and>
      cls m' = cls m)"

definition same_hyper :: "'o optimizer \<Rightarrow> 'o optimizer \<Rightarrow> bool" where
  "same_hyper opt opt' =
     (param_keys opt' = param_keys opt \<and> lr opt' = lr opt \<and> betas opt' = betas opt \<and>
      eps opt' = eps opt \<and> weight_decay opt' = weight_decay opt)"

definition stage_frame :: "('t, 'o) run \<Rightarrow> ('t, 'o) run \<Rightarrow> bool" where
  "stage_frame r r' =
     (same_frame (param_keys (optimizer r)) (model r) (model r') \<and>
      param_keys (optimizer r') = param_keys (optimizer r) \<and>
      mode (sched r') = mode (sched r) \<and> factor (sched r') = factor (sched r) \<and>
      patience (sched r') = patience (sched r))"

section \<open>Loops and phases\<close>

lemma for_each_preserves:
  assumes "for_each body xs s = Inr s'" and "P s"
    and "\<And>x a b. body x a = Inr b \<Longrightarrow> P a \<Longrightarrow> P b"
  shows "P s'"
  using assms(1,2)
proof (induction xs arbitrary: s)
  case Nil
  then show ?case by simp
next
  case (Cons x xs)
  from Cons.prems(1) obtain s1 where b: "body x s = Inr s1" and rest: "for_each body xs s1 = Inr s'"
    by (auto split: sum.splits)
  from assms(3)[OF b Cons.prems(2)] have "P s1" .
  with Cons.IH[OF rest] show ?case .
qed

lemma for_each_Cons:
  assumes "for_each body (x # xs) s = Inr s'"
  shows "\<exists>s1. body x s = Inr s1 \<and> for_each body xs s1 = Inr s'"
  using assms by (cases "body x s") simp_all

lemma for_each_two:
  "for_each body [x, y] s = Inr s' \<longleftrightarrow> (\<exists>s1. body x s = Inr s1 \<and> body y s1 = Inr s')"
  by (auto split: sum.splits)

lemma val_accuracies_append:
  "val_accuracies (xs @ ys) = val_accuracies xs @ val_accuracies ys"
  by (induction xs rule: val_accuracies.induct) simp_all

lemma batch_body_val:
  "batch_body E Val b (m, opt, rl, rc) =
     (m, opt, rl + loss_item E m b * real (batch_size E b), rc + corrects E m b)"
  by (simp add: batch_body_def Let_def)

lemma fold_batch_body_val:
  "\<exists>rl' rc'. fold (batch_body E Val) bs (m, opt, rl, rc) = (m, opt, rl', rc')"
  by (induction bs arbitrary: rl rc) (simp_all add: batch_body_val)

lemma batch_loop_val:
  "\<exists>rl rc. batch_loop E Val m opt = (set_mode Val m, opt, rl, rc)"
  unfolding batch_loop_def by (rule fold_batch_body_val)

lemma train_phase_Train:
  assumes "train_phase E path Train r = Inr r'"
  shows "keeps_best r r' \<and> console r' = console r @ [metrics_line E Train r]"
  using assms
  by (auto simp: train_phase_def keeps_best_def Let_def metrics_line_def epoch_loss_def epoch_acc_def
      split: prod.splits sum.splits if_splits)

lemma train_phase_Val:
  assumes "train_phase E path Val r = Inr r'"
  shows "console r' = console r @ [metrics_line E Val r] \<and>
           (if epoch_acc E Val r > best_acc r then takes_best path (epoch_acc E Val r) r r'
            else keeps_best r r')"
  using assms
  by (auto simp: train_phase_def keeps_best_def takes_best_def checkpoint_of_def torch_save_def
      Let_def metrics_line_def epoch_loss_def epoch_acc_def split: prod.splits sum.splits if_splits)

lemma teacher_train_phase_Train:
  assumes "teacher_train_phase E path Train r = Inr r'"
  shows "keeps_best r r' \<and> console r' = console r @ [metrics_line E Train r]"
  using assms
  by (auto simp: teacher_train_phase_def keeps_best_def Let_def metrics_line_def epoch_loss_def epoch_acc_def
     split: prod.splits sum.splits if_splits)

lemma teacher_train_phase_Val:
  assumes "teacher_train_phase E path Val r = Inr r'"
  shows "console r' = console r @ [metrics_line E Val r] \<and>
           (if epoch_acc E Val r > best_acc r then takes_best path (epoch_acc E Val r) r r'
            else keeps_best r r')"
  using assms
  by (auto simp: teacher_train_phase_def keeps_best_def takes_best_def checkpoint_of_def torch_save_def
      Let_def metrics_line_def epoch_loss_def epoch_acc_def split: prod.splits sum.splits if_splits)

lemma tracked_by_best_tracked:
  assumes "tracked_by path (improvements (best_acc r) (map fst obs)) r r' ws"
    and "(best_acc r', best_model r', saved (disk r')) =
           best_state_rule snap path obs (best_acc r, best_model r, saved (disk r))"
  shows "best_tracked snap path obs r r'"
proof -
  let ?imp = "improvements (best_acc r) (map fst obs)"
  from assms(1) have sv: "saved (disk r') = ws @ saved (disk r)" and len: "length ws = length ?imp"
    and keys: "map fst ws = replicate (length ?imp) path"
    and rest: "best_acc r' = last (best_acc r # ?imp)" "dirs (disk r') = dirs (disk r)"
      "if ?imp = [] then best_model r' = best_model r
       else checkpoint_of (best_model r') = snd (hd ws)"
    by (simp_all add: tracked_by_def)
  have "?imp \<noteq> [] \<Longrightarrow> hd (saved (disk r')) = hd ws"
    using sv len by (cases ws) simp_all
  with sv len keys rest assms(2) show ?thesis
    by (simp add: best_tracked_def Let_def)
qed

lemma run_tracked:
  assumes T: "\<And>r r'. phase_fn Train r = Inr r' \<Longrightarrow>
                 keeps_best r r' \<and> val_accuracies (console r') = val_accuracies (console r)"
    and V: "\<And>r r'. phase_fn Val r = Inr r' \<Longrightarrow>
                 \<exists>a. val_accuracies (console r') = val_accuracies (console r) @ [a] \<and>
                     (if a > best_acc r then takes_best path a r r' else keeps_best r r')"
    and run: "for_each (\<lambda>epoch. for_each phase_fn [Train, Val]) xs r = Inr r'"
  shows "\<exists>vs ws. val_accuracies (console r') = val_accuracies (console r) @ vs \<and>
           length vs = length xs \<and> tracked_by path (improvements (best_acc r) vs) r r' ws"
  using run
proof (induction xs arbitrary: r)
  case Nil
  then have "r' = r" by simp
  then have "tracked_by path (improvements (best_acc r) []) r r' []"
    by (simp add: tracked_by_def)
  then show ?case using \<open>r' = r\<close> by fastforce
next
  case (Cons x xs)
  from for_each_Cons[OF Cons.prems] obtain r2 where
    ep: "for_each phase_fn [Train, Val] r = Inr r2"
    and rest: "for_each (\<lambda>epoch. for_each phase_fn [Train, Val]) xs r2 = Inr r'"
    by blast
  from ep obtain r1 where
    t: "phase_fn Train r = Inr r1" and v: "phase_fn Val r1 = Inr r2"
    unfolding for_each_two by blast
  from T[OF t] have k1: "keeps_best r r1"
    and c1: "val_accuracies (console r1) = val_accuracies (console r)" by simp_all
  from V[OF v] obtain a where
    c2: "val_accuracies (console r2) = val_accuracies (console r1) @ [a]"
    and b2: "if a > best_acc r1 then takes_best path a r1 r2 else keeps_best r1 r2" by blast
  from Cons.IH[OF rest] obtain vs ws where
    c': "val_accuracies (console r') = val_accuracies (console r2) @ vs"
    and len: "length vs = length xs"
    and tr: "tracked_by path (improvements (best_acc r2) vs) r2 r' ws" by blast
  have cons: "val_accuracies (console r') = val_accuracies (console r) @ (a # vs)"
    using c1 c2 c' by simp
  have len': "length (a # vs) = length (x # xs)" using len by simp
  show ?case
  proof (cases "a > best_acc r")
    case False
    with b2 k1 have "keeps_best r r2" by (simp add: keeps_best_def)
    with tr False have "tracked_by path (improvements (best_acc r) (a # vs)) r r' ws"
      by (simp add: keeps_best_def tracked_by_def)
    with cons len' show ?thesis by blast
  next
    case True
    with b2 k1 have tb: "takes_best path a r1 r2" by (simp add: keeps_best_def)
    let ?w = "(path, state_dict (model r2))"
    have "tracked_by path (improvements (best_acc r) (a # vs)) r r' (ws @ [?w])"
    proof (cases "improvements a vs = []")
      case e: True
      with tr tb k1 True show ?thesis
        by (simp add: tracked_by_def takes_best_def keeps_best_def)
    next
      case ne: False
      then have "ws \<noteq> []" using tr tb by (auto simp: tracked_by_def takes_best_def)
      with ne tr tb k1 True show ?thesis
        by (simp add: tracked_by_def takes_best_def keeps_best_def replicate_append_same)
    qed
    with cons len' show ?thesis by blast
  qed
qed

lemma metrics_line_val [simp]:
  "val_accuracies [metrics_line E Val r] = [epoch_acc E Val r]"
  "val_accuracies [metrics_line E Train r] = []"
  by (simp_all add: metrics_line_def)

lemma train_tracked:
  assumes "train E epochs path r = Inr r'"
  shows "\<exists>vs ws. val_accuracies (console r') = val_accuracies (console r) @ vs \<and>
           length vs = nat epochs \<and> tracked_by path (improvements (best_acc r) vs) r r' ws"
proof -
  have "\<exists>vs ws. val_accuracies (console r') = val_accuracies (console r) @ vs \<and>
           length vs = length [0 ..< nat epochs] \<and>
           tracked_by path (improvements (best_acc r) vs) r r' ws"
  proof (rule run_tracked)
    show "for_each (\<lambda>epoch. for_each (train_phase E path) [Train, Val]) [0 ..< nat epochs] r = Inr r'"
      using assms by (simp add: train_def)
  next
    fix a b assume "train_phase E path Train a = Inr b"
    from train_phase_Train[OF this]
    show "keeps_best a b \<and> val_accuracies (console b) = val_accuracies (console a)"
      by (simp add: val_accuracies_append)
  next
    fix a b assume "train_phase E path Val a = Inr b"
    from train_phase_Val[OF this]
    show "\<exists>x. val_accuracies (console b) = val_accuracies (console a) @ [x] \<and>
           (if x > best_acc a then takes_best path x a b else keeps_best a b)"
      by (intro exI[of _ "epoch_acc E Val a"]) (simp add: val_accuracies_append)
  qed
  then show ?thesis by simp
qed

lemma teacher_train_tracked:
  assumes "teacher_train E epochs path r = Inr r'"
  shows "\<exists>vs ws. val_accuracies (console r') = val_accuracies (console r) @ vs \<and>
           length vs = nat epochs \<and> tracked_by path (improvements (best_acc r) vs) r r' ws"
proof -
  have "\<exists>vs ws. val_accuracies (console r') = val_accuracies (console r) @ vs \<and>
           length vs = length [0 ..< nat epochs] \<and>
           tracked_by path (improvements (best_acc r) vs) r r' ws"
  proof (rule run_tracked)
    show "for_each (\<lambda>epoch. for_each (teacher_train_phase E path) [Train, Val]) [0 ..< nat epochs] r = Inr r'"
      using assms by (simp add: teacher_train_def)
  next
    fix a b assume "teacher_train_phase E path Train a = Inr b"
    from teacher_train_phase_Train[OF this]
    show "keeps_best a b \<and> val_accuracies (console b) = val_accuracies (console a)"
      by (simp add: val_accuracies_append)
  next
    fix a b assume "teacher_train_phase E path Val a = Inr b"
    from teacher_train_phase_Val[OF this]
    show "\<exists>x. val_accuracies (console b) = val_accuracies (console a) @ [x] \<and>
           (if x > best_acc a then takes_best path x a b else keeps_best a b)"
      by (intro exI[of _ "epoch_acc E Val a"]) (simp add: val_accuracies_append)
  qed
  then show ?thesis by simp
qed

lemma state_dict_set_mode [simp]: "state_dict (set_mode ph m) = state_dict m"
  by (simp add: state_dict_def set_mode_def named_parameters_def)

lemma set_mode_idem [simp]: "set_mode ph (set_mode ph m) = set_mode ph m"
  by (simp add: set_mode_def)

lemma batch_loop_set_mode [simp]:
  "batch_loop E ph (set_mode ph m) opt = batch_loop E ph m opt"
  by (simp add: batch_loop_def)

lemma train_phase_Val_eq:
  "train_phase E path Val r =
     (if dataset_sizes E Val = 0 then Inl ZeroDivisionError
      else if loaders E Val = [] then Inl AttributeError
      else
        let r' = r\<lparr>model := set_mode Val (model r),
                  console := console r @ [metrics_line E Val r]\<rparr>
        in if epoch_acc E Val r > best_acc r
           then (case torch_save (state_dict (model r)) path (disk r) of
                   Inl e \<Rightarrow> Inl e
                 | Inr d \<Rightarrow>
                     Inr (r'\<lparr>best_acc := epoch_acc E Val r,
                              best_model := OrderedDict (state_dict (model r)),
                              disk := d\<rparr>))
           else Inr r')"
proof -
  obtain rl rc where "batch_loop E Val (model r) (optimizer r) = (set_mode Val (model r), optimizer r, rl, rc)"
    using batch_loop_val by blast
  then show ?thesis
    by (simp add: train_phase_def metrics_line_def epoch_loss_def epoch_acc_def Let_def
        split: sum.splits)
qed

lemma teacher_train_phase_Val_eq:
  "teacher_train_phase E path Val r =
     (if dataset_sizes E Val = 0 then Inl ZeroDivisionError
      else if loaders E Val = [] then Inl AttributeError
      else
        let r' = r\<lparr>model := set_mode Val (model r),
                  console := console r @ [metrics_line E Val r]\<rparr>
        in if epoch_acc E Val r > best_acc r
           then (case torch_save (state_dict (model r)) path (disk r) of
                   Inl e \<Rightarrow> Inl e
                 | Inr d \<Rightarrow>
                     Inr (r'\<lparr>best_acc := epoch_acc E Val r,
                              best_model := Module (set_mode Val (model r)),
                              disk := d\<rparr>))
           else Inr r')"
proof -
  obtain rl rc where "batch_loop E Val (model r) (optimizer r) = (set_mode Val (model r), optimizer r, rl, rc)"
    using batch_loop_val by blast
  then show ?thesis
    by (simp add: teacher_train_phase_def metrics_line_def epoch_loss_def epoch_acc_def Let_def
        split: sum.splits)
qed

lemma epoch_val_again:
  assumes "model r1 = set_mode Val (model r)" "optimizer r1 = optimizer r"
  shows "epoch_acc E Val r1 = epoch_acc E Val r" "epoch_loss E Val r1 = epoch_loss E Val r"
    "metrics_line E Val r1 = metrics_line E Val r"
  using assms by (simp_all add: epoch_acc_def epoch_loss_def metrics_line_def)

lemma train_phase_Val_twice:
  assumes "train_phase E path Val r = Inr r1"
  shows "model r1 = set_mode Val (model r) \<and> optimizer r1 = optimizer r \<and> sched r1 = sched r \<and>
         last (console r1) = metrics_line E Val r \<and>
         train_phase E path Val r1 = Inr (r1\<lparr>console := console r1 @ [metrics_line E Val r]\<rparr>)"
proof -
  from assms have n: "dataset_sizes E Val \<noteq> 0" and l: "loaders E Val \<noteq> []"
    by (auto simp: train_phase_Val_eq split: if_splits)
  from assms n l have m: "model r1 = set_mode Val (model r)" and o: "optimizer r1 = optimizer r"
    and s: "sched r1 = sched r" and c: "console r1 = console r @ [metrics_line E Val r]"
    and b: "epoch_acc E Val r \<le> best_acc r1"
    by (auto simp: train_phase_Val_eq Let_def split: if_splits sum.splits)
  have "train_phase E path Val r1 = Inr (r1\<lparr>console := console r1 @ [metrics_line E Val r]\<rparr>)"
    using n l b m by (simp add: train_phase_Val_eq[of E path r1] epoch_val_again[OF m o] Let_def)
  with m o s c show ?thesis by simp
qed

lemma teacher_train_phase_Val_twice:
  assumes "teacher_train_phase E path Val r = Inr r1"
  shows "model r1 = set_mode Val (model r) \<and> optimizer r1 = optimizer r \<and> sched r1 = sched r \<and>
         last (console r1) = metrics_line E Val r \<and>
         teacher_train_phase E path Val r1 = Inr (r1\<lparr>console := console r1 @ [metrics_line E Val r]\<rparr>)"
proof -
  from assms have n: "dataset_sizes E Val \<noteq> 0" and l: "loaders E Val \<noteq> []"
    by (auto simp: teacher_train_phase_Val_eq split: if_splits)
  from assms n l have m: "model r1 = set_mode Val (model r)" and o: "optimizer r1 = optimizer r"
    and s: "sched r1 = sched r" and c: "console r1 = console r @ [metrics_line E Val r]"
    and b: "epoch_acc E Val r \<le> best_acc r1"
    by (auto simp: teacher_train_phase_Val_eq Let_def split: if_splits sum.splits)
  have "teacher_train_phase E path Val r1 = Inr (r1\<lparr>console := console r1 @ [metrics_line E Val r]\<rparr>)"
    using n l b m by (simp add: teacher_train_phase_Val_eq[of E path r1] epoch_val_again[OF m o] Let_def)
  with m o s c show ?thesis by simp
qed

subsection \<open>What the batch loop leaves alone\<close>

lemma named_parameters_map_parameters:
  assumes "\<And>k p. pname (f k p) = pname p"
  shows "named_parameters (map_parameters f m) =
     map (\<lambda>kp. (fst kp, f (fst kp) (snd kp))) (named_parameters m)"
  using assms
  by (simp add: named_parameters_def map_parameters_def child_parameters_def map_concat
      comp_def param_key_def)

lemma named_parameters_set_mode [simp]:
  "named_parameters (set_mode ph m) = named_parameters m"
  by (simp add: named_parameters_def set_mode_def)

lemma same_frame_refl [simp]: "same_frame ks m m"
  by (simp add: same_frame_def)

lemma same_frame_trans:
  "same_frame ks m m1 \<Longrightarrow> same_frame ks m1 m2 \<Longrightarrow> same_frame ks m m2"
  by (simp add: same_frame_def)

lemma same_frame_set_mode [simp]: "same_frame ks m (set_mode ph m)"
  by (simp add: same_frame_def backbone_parameters_def trainable_flags_def set_mode_def
      named_parameters_def)

lemma optimizer_step_frame:
  "same_frame (param_keys opt) m (fst (optimizer_step E b (m, opt)))"
proof -
  let ?ks = "param_keys opt"
  let ?upd = "\<lambda>k p. if k \<in> set ?ks \<and> requires_grad p
                     then p\<lparr>pvalue := adam_value E opt m b k\<rparr> else p"
  let ?m' = "fst (optimizer_step E b (m, opt))"
  have m': "?m' = map_parameters ?upd m"
    by (simp add: optimizer_step_def Let_def)
  have np: "named_parameters ?m' = map (\<lambda>kp. (fst kp, ?upd (fst kp) (snd kp))) (named_parameters m)"
    unfolding m' by (rule named_parameters_map_parameters) simp
  have "filter (\<lambda>kp. fst kp \<notin> set ?ks) (named_parameters ?m') =
        map (\<lambda>kp. (fst kp, ?upd (fst kp) (snd kp)))
          (filter (\<lambda>kp. fst kp \<notin> set ?ks) (named_parameters m))"
    unfolding np by (simp add: filter_map comp_def)
  also have "\<dots> = filter (\<lambda>kp. fst kp \<notin> set ?ks) (named_parameters m)"
    by (rule map_idI) auto
  finally have bb: "backbone_parameters ?ks ?m' = backbone_parameters ?ks m"
    by (simp add: backbone_parameters_def)
  have fl: "trainable_flags ?m' = trainable_flags m"
    unfolding trainable_flags_def np by (simp add: comp_def)
  have ky: "map fst (named_parameters ?m') = map fst (named_parameters m)"
    unfolding np by (simp add: comp_def)
  have "cls ?m' = cls m"
    unfolding m' by (simp add: map_parameters_def)
  with bb fl ky show ?thesis by (simp add: same_frame_def)
qed

lemma optimizer_step_opt:
  "snd (optimizer_step E b (m, opt)) = opt\<lparr>moments := adam_moments E opt m b\<rparr>"
  by (simp add: optimizer_step_def Let_def)

lemma fold_batch_body_frame:
  assumes "fold (batch_body E ph) bs (m, opt, rl, rc) = (m', opt', rl', rc')"
  shows "same_frame (param_keys opt) m m' \<and> same_hyper opt opt'"
  using assms
proof (induction bs arbitrary: m opt rl rc)
  case Nil
  then show ?case by (simp add: same_hyper_def)
next
  case (Cons b bs)
  obtain m1 opt1 rl1 rc1 where step: "batch_body E ph b (m, opt, rl, rc) = (m1, opt1, rl1, rc1)"
    by (cases "batch_body E ph b (m, opt, rl, rc)") auto
  have f1: "same_frame (param_keys opt) m m1 \<and> same_hyper opt opt1"
  proof (cases ph)
    case Train
    with step have "m1 = fst (optimizer_step E b (m, opt))" "opt1 = snd (optimizer_step E b (m, opt))"
      by (simp_all add: batch_body_def Let_def)
    then show ?thesis
      by (simp add: optimizer_step_frame optimizer_step_opt same_hyper_def)
  next
    case Val
    with step show ?thesis by (simp add: batch_body_def Let_def same_hyper_def)
  qed
  from Cons.prems step have "fold (batch_body E ph) bs (m1, opt1, rl1, rc1) = (m', opt', rl', rc')"
    by simp
  from Cons.IH[OF this] f1 show ?case
    by (auto simp: same_hyper_def intro: same_frame_trans)
qed

lemma batch_loop_frame:
  assumes "batch_loop E ph m opt = (m', opt', rl', rc')"
  shows "same_frame (param_keys opt) m m' \<and> same_hyper opt opt'"
proof -
  from assms have "fold (batch_body E ph) (loaders E ph) (set_mode ph m, opt, 0, 0) = (m', opt', rl', rc')"
    by (simp add: batch_loop_def)
  from fold_batch_body_frame[OF this] have "same_frame (param_keys opt) (set_mode ph m) m'"
    and h: "same_hyper opt opt'" by simp_all
  with same_frame_trans[OF same_frame_set_mode] show ?thesis by blast
qed

subsection \<open>The scheduler step\<close>

lemma plateau_step_config:
  "mode (fst (plateau_step a so)) = mode (fst so)"
  "factor (fst (plateau_step a so)) = factor (fst so)"
  "patience (fst (plateau_step a so)) = patience (fst so)"
  "last_epoch (fst (plateau_step a so)) = last_epoch (fst so) + 1"
  by (simp_all add: plateau_step_def Let_def)

lemma plateau_step_keys:
  "param_keys (snd (plateau_step a so)) = param_keys (snd so)"
  by (simp add: plateau_step_def reduce_lr_def Let_def)

subsection \<open>The train phase\<close>

lemma train_phase_Train_sched:
  assumes "train_phase E path Train r = Inr r'"
  shows "model r' = fst (batch_loop E Train (model r) (optimizer r)) \<and>
         (sched r', optimizer r') =
           plateau_step (100 * epoch_acc E Train r)
             (sched r, fst (snd (batch_loop E Train (model r) (optimizer r))))"
  using assms
  by (auto simp: train_phase_def Let_def epoch_acc_def split: prod.splits sum.splits if_splits)

lemma teacher_train_phase_Train_sched:
  assumes "teacher_train_phase E path Train r = Inr r'"
  shows "model r' = fst (batch_loop E Train (model r) (optimizer r)) \<and>
         (sched r', optimizer r') =
           plateau_step (100 * epoch_acc E Train r)
             (sched r, fst (snd (batch_loop E Train (model r) (optimizer r))))"
  using assms
  by (auto simp: teacher_train_phase_def Let_def epoch_acc_def split: prod.splits sum.splits if_splits)

lemma stage_frame_refl [simp]: "stage_frame r r"
  by (simp add: stage_frame_def)

lemma stage_frame_trans: "stage_frame r r1 \<Longrightarrow> stage_frame r1 r2 \<Longrightarrow> stage_frame r r2"
  by (auto simp: stage_frame_def intro: same_frame_trans)

lemma Train_sched_frame:
  assumes "model r' = fst (batch_loop E Train (model r) (optimizer r)) \<and>
         (sched r', optimizer r') =
           plateau_step a (sched r, fst (snd (batch_loop E Train (model r) (optimizer r))))"
  shows "stage_frame r r' \<and> last_epoch (sched r') = last_epoch (sched r) + 1"
proof -
  obtain m' opt' rl rc where bl: "batch_loop E Train (model r) (optimizer r) = (m', opt', rl, rc)"
    by (cases "batch_loop E Train (model r) (optimizer r)") auto
  from batch_loop_frame[OF bl] have f: "same_frame (param_keys (optimizer r)) (model r) m'"
    and h: "param_keys opt' = param_keys (optimizer r)" by (simp_all add: same_hyper_def)
  from assms bl have m: "model r' = m'"
    and s: "sched r' = fst (plateau_step a (sched r, opt'))"
    and o: "optimizer r' = snd (plateau_step a (sched r, opt'))"
    by (simp_all add: prod_eq_iff)
  show ?thesis
    using f h by (simp add: stage_frame_def m s o plateau_step_config plateau_step_keys)
qed

lemma Val_frame:
  assumes "model r' = set_mode Val (model r) \<and> optimizer r' = optimizer r \<and> sched r' = sched r \<and> X"
  shows "stage_frame r r' \<and> last_epoch (sched r') = last_epoch (sched r)"
  using assms by (simp add: stage_frame_def)

lemma train_phase_frame:
  assumes "train_phase E path ph r = Inr r'"
  shows "stage_frame r r' \<and>
         last_epoch (sched r') = last_epoch (sched r) + (if ph = Train then 1 else 0)"
proof (cases ph)
  case Train
  with Train_sched_frame[OF train_phase_Train_sched] assms show ?thesis by simp
next
  case Val
  with Val_frame[OF train_phase_Val_twice] assms show ?thesis by simp
qed

lemma teacher_train_phase_frame:
  assumes "teacher_train_phase E path ph r = Inr r'"
  shows "stage_frame r r' \<and>
         last_epoch (sched r') = last_epoch (sched r) + (if ph = Train then 1 else 0)"
proof (cases ph)
  case Train
  with Train_sched_frame[OF teacher_train_phase_Train_sched] assms show ?thesis by simp
next
  case Val
  with Val_frame[OF teacher_train_phase_Val_twice] assms show ?thesis by simp
qed

lemma run_frame:
  assumes ph: "\<And>ph r r'. phase_fn ph r = Inr r' \<Longrightarrow>
                 stage_frame r r' \<and>
                 last_epoch (sched r') = last_epoch (sched r) + (if ph = Train then 1 else 0)"
    and run: "for_each (\<lambda>epoch. for_each phase_fn [Train, Val]) xs r = Inr r'"
  shows "stage_frame r r' \<and> last_epoch (sched r') = last_epoch (sched r) + length xs"
  using run
proof (induction xs arbitrary: r)
  case Nil
  then show ?case by simp
next
  case (Cons x xs)
  from for_each_Cons[OF Cons.prems] obtain r2 where
    ep: "for_each phase_fn [Train, Val] r = Inr r2"
    and rest: "for_each (\<lambda>epoch. for_each phase_fn [Train, Val]) xs r2 = Inr r'"
    by blast
  from ep obtain r1 where
    t: "phase_fn Train r = Inr r1" and v: "phase_fn Val r1 = Inr r2"
    unfolding for_each_two by blast
  from ph[OF t] ph[OF v] have "stage_frame r r2" "last_epoch (sched r2) = last_epoch (sched r) + 1"
    by (auto intro: stage_frame_trans)
  with Cons.IH[OF rest] show ?case
    by (auto intro: stage_frame_trans)
qed

lemma train_frame:
  assumes "train E epochs path r = Inr r'"
  shows "stage_frame r r' \<and> last_epoch (sched r') = last_epoch (sched r) + nat epochs"
proof -
  from assms have run:
    "for_each (\<lambda>epoch. for_each (train_phase E path) [Train, Val]) [0 ..< nat epochs] r = Inr r'"
    by (simp add: train_def)
  have "stage_frame r r' \<and> last_epoch (sched r') = last_epoch (sched r) + length [0 ..< nat epochs]"
    by (rule run_frame[OF _ run]) (rule train_phase_frame)
  then show ?thesis by simp
qed

lemma teacher_train_frame:
  assumes "teacher_train E epochs path r = Inr r'"
  shows "stage_frame r r' \<and> last_epoch (sched r') = last_epoch (sched r) + nat epochs"
proof -
  from assms have run:
    "for_each (\<lambda>epoch. for_each (teacher_train_phase E path) [Train, Val]) [0 ..< nat epochs] r = Inr r'"
    by (simp add: teacher_train_def)
  have "stage_frame r r' \<and> last_epoch (sched r') = last_epoch (sched r) + length [0 ..< nat epochs]"
    by (rule run_frame[OF _ run]) (rule teacher_train_phase_frame)
  then show ?thesis by simp
qed

subsection \<open>The best accuracy never decreases\<close>

lemma train_phase_mono:
  assumes "train_phase E path ph r = Inr r'"
  shows "best_acc r \<le> best_acc r'"
proof (cases ph)
  case Train
  from train_phase_Train[OF assms[unfolded Train]] show ?thesis by (simp add: keeps_best_def)
next
  case Val
  with train_phase_Val[of E path r r'] assms show ?thesis
    by (auto simp: keeps_best_def takes_best_def split: if_splits)
qed

lemma teacher_train_phase_mono:
  assumes "teacher_train_phase E path ph r = Inr r'"
  shows "best_acc r \<le> best_acc r'"
proof (cases ph)
  case Train
  from teacher_train_phase_Train[OF assms[unfolded Train]] show ?thesis by (simp add: keeps_best_def)
next
  case Val
  with teacher_train_phase_Val[of E path r r'] assms show ?thesis
    by (auto simp: keeps_best_def takes_best_def split: if_splits)
qed

lemma train_mono:
  assumes "train E epochs path r = Inr r'"
  shows "best_acc r \<le> best_acc r'"
proof -
  from assms have run:
    "for_each (\<lambda>epoch. for_each (train_phase E path) [Train, Val]) [0 ..< nat epochs] r = Inr r'"
    by (simp add: train_def)
  show ?thesis
  proof (rule for_each_preserves[OF run, where P = "\<lambda>s. best_acc r \<le> best_acc s"])
    show "best_acc r \<le> best_acc r" by simp
  next
    fix x a b
    assume ab: "for_each (train_phase E path) [Train, Val] a = Inr b"
      and a: "best_acc r \<le> best_acc a"
    show "best_acc r \<le> best_acc b"
    proof (rule for_each_preserves[OF ab, where P = "\<lambda>s. best_acc r \<le> best_acc s"])
      show "best_acc r \<le> best_acc a" by fact
    next
      fix ph c d
      assume "train_phase E path ph c = Inr d" and "best_acc r \<le> best_acc c"
      with train_phase_mono[of E path ph c d] show "best_acc r \<le> best_acc d" by simp
    qed
  qed
qed

lemma teacher_train_mono:
  assumes "teacher_train E epochs path r = Inr r'"
  shows "best_acc r \<le> best_acc r'"
proof -
  from assms have run:
    "for_each (\<lambda>epoch. for_each (teacher_train_phase E path) [Train, Val]) [0 ..< nat epochs] r = Inr r'"
    by (simp add: teacher_train_def)
  show ?thesis
  proof (rule for_each_preserves[OF run, where P = "\<lambda>s. best_acc r \<le> best_acc s"])
    show "best_acc r \<le> best_acc r" by simp
  next
    fix x a b
    assume ab: "for_each (teacher_train_phase E path) [Train, Val] a = Inr b"
      and a: "best_acc r \<le> best_acc a"
    show "best_acc r \<le> best_acc b"
    proof (rule for_each_preserves[OF ab, where P = "\<lambda>s. best_acc r \<le> best_acc s"])
      show "best_acc r \<le> best_acc a" by fact
    next
      fix ph c d
      assume "teacher_train_phase E path ph c = Inr d" and "best_acc r \<le> best_acc c"
      with teacher_train_phase_mono[of E path ph c d] show "best_acc r \<le> best_acc d" by simp
    qed
  qed
qed

section \<open>The two controllers\<close>

subsection \<open>The stages of \<^verbatim>\<open>train_kd\<close>\<close>

lemma train_kd_init_best_acc:
  assumes "train_kd_init E student teacher p d out = Inr (path, r0)"
  shows "best_acc r0 = 0 \<and> best_model r0 = OrderedDict (state_dict student) \<and> console r0 = out"
  using assms
  by (auto simp: train_kd_init_def split: sum.splits prod.splits)

lemma train_kd_stage1_parts:
  assumes "train_kd_stage1 E epochs student teacher p d out = Inr (path, r1)"
  shows "\<exists>r0. train_kd_init E student teacher p d out = Inr (path, r0) \<and>
              train E epochs path r0 = Inr r1"
  using assms
  by (auto simp: train_kd_stage1_def split: sum.splits prod.splits)

lemma train_kd_unfreeze_parts:
  assumes "train_kd_unfreeze E epochs student teacher p d out = Inr (path, ru)"
  shows "\<exists>r1 loaded. train_kd_stage1 E epochs student teacher p d out = Inr (path, r1) \<and>
           load_state_dict (model r1) (best_model r1) = Inr loaded \<and>
           model ru = map_parameters (\<lambda>k p. p\<lparr>requires_grad := True\<rparr>) loaded \<and>
           best_acc ru = best_acc r1 \<and> best_model ru = best_model r1 \<and>
           disk ru = disk r1 \<and> console ru = console r1 \<and>
           sched ru = \<lparr>mode = MinMode, factor = 1 / 10, patience = 2, best = None,
                        num_bad_epochs = 0, last_epoch = 0\<rparr>"
  using assms
  by (auto simp: train_kd_unfreeze_def Let_def Adam_def ReduceLROnPlateau_def
      split: sum.splits prod.splits if_splits)

lemma train_kd_stage2_parts:
  assumes "train_kd_stage2 E epochs student teacher p d out = Inr (path, r2)"
  shows "\<exists>ru. train_kd_unfreeze E epochs student teacher p d out = Inr (path, ru) \<and>
              train E epochs path ru = Inr r2"
  using assms
  by (auto simp: train_kd_stage2_def split: sum.splits prod.splits)

subsection \<open>One epoch\<close>

lemma epoch_steps_once:
  assumes ph: "\<And>ph r r'. phase_fn ph r = Inr r' \<Longrightarrow>
                 stage_frame r r' \<and>
                 last_epoch (sched r') = last_epoch (sched r) + (if ph = Train then 1 else 0)"
    and "for_each phase_fn [Train, Val] r = Inr r'"
  shows "last_epoch (sched r') = last_epoch (sched r) + 1"
proof -
  from assms(2) obtain r1 where "phase_fn Train r = Inr r1" "phase_fn Val r1 = Inr r'"
    unfolding for_each_two by blast
  with ph[of Train r r1] ph[of Val r1 r'] show ?thesis by simp
qed

subsection \<open>The default checkpoint path\<close>

lemma dirname_weights:
  assumes "CHR ''/'' \<notin> set c"
  shows "dirname (''Weights/'' @ c @ ''.pth'') = ''Weights''"
proof -
  have "rev (''Weights/'' @ c @ ''.pth'') = (rev ''.pth'' @ rev c) @ ''/sthgieW''"
    by simp
  moreover have "dropWhile (\<lambda>x. x \<noteq> CHR ''/'') ((rev ''.pth'' @ rev c) @ ''/sthgieW'') = ''/sthgieW''"
    using assms by (subst dropWhile_append2) auto
  ultimately have "dropWhile (\<lambda>x. x \<noteq> CHR ''/'') (rev (''Weights/'' @ c @ ''.pth'')) = ''/sthgieW''"
    by (simp only:)
  then show ?thesis
    unfolding dirname_def by (simp add: Let_def)
qed

lemma path_join_weights:
  "path_join ''Weights'' (c @ ''.pth'') =
     (if c \<noteq> [] \<and> hd c = CHR ''/'' then c @ ''.pth'' else ''Weights/'' @ c @ ''.pth'')"
  by (cases c) (simp_all add: path_join_def)

subsection \<open>The kind of the best snapshot\<close>

lemma train_keeps_dict:
  assumes "train E epochs path r = Inr r'" and "\<exists>sd. best_model r = OrderedDict sd"
  shows "\<exists>sd. best_model r' = OrderedDict sd"
proof -
  from assms(1) have run:
    "for_each (\<lambda>epoch. for_each (train_phase E path) [Train, Val]) [0 ..< nat epochs] r = Inr r'"
    by (simp add: train_def)
  have phase: "\<exists>sd. best_model b = OrderedDict sd"
    if "train_phase E path ph a = Inr b" "\<exists>sd. best_model a = OrderedDict sd" for ph a b
  proof (cases ph)
    case Train
    with train_phase_Train[of E path a b] that show ?thesis by (simp add: keeps_best_def)
  next
    case Val
    with that show ?thesis
      by (auto simp: train_phase_Val_eq Let_def split: if_splits sum.splits)
  qed
  show ?thesis
  proof (rule for_each_preserves[OF run, where P = "\<lambda>s. \<exists>sd. best_model s = OrderedDict sd"])
    show "\<exists>sd. best_model r = OrderedDict sd" by fact
  next
    fix x a b
    assume ab: "for_each (train_phase E path) [Train, Val] a = Inr b"
      and a: "\<exists>sd. best_model a = OrderedDict sd"
    show "\<exists>sd. best_model b = OrderedDict sd"
      by (rule for_each_preserves[OF ab, where P = "\<lambda>s. \<exists>sd. best_model s = OrderedDict sd"])
        (use a phase in blast)+
  qed
qed

text \<open>
  \<^verbatim>\<open>train_kd\<close> never returns: the best snapshot is an ordered dictionary from the
  first assignment on, and the last statement asks it for \<^verbatim>\<open>state_dict()\<close>.
\<close>

lemma train_kd_never_returns:
  "train_kd E epochs student teacher p d out \<noteq> Inr x"
proof
  assume ret: "train_kd E epochs student teacher p d out = Inr x"
  then obtain path r2 where
    s2: "train_kd_stage2 E epochs student teacher p d out = Inr (path, r2)"
    and ok: "\<exists>sd. call_state_dict (best_model r2) = Inr sd"
    by (auto simp: train_kd_def split: sum.splits prod.splits)
  from train_kd_stage2_parts[OF s2] obtain ru where
    u: "train_kd_unfreeze E epochs student teacher p d out = Inr (path, ru)"
    and t2: "train E epochs path ru = Inr r2" by blast
  from train_kd_unfreeze_parts[OF u] obtain r1 where
    s1: "train_kd_stage1 E epochs student teacher p d out = Inr (path, r1)"
    and same: "best_model ru = best_model r1" by blast
  from train_kd_stage1_parts[OF s1] obtain r0 where
    i: "train_kd_init E student teacher p d out = Inr (path, r0)"
    and t1: "train E epochs path r0 = Inr r1" by blast
  from train_kd_init_best_acc[OF i] have "\<exists>sd. best_model r0 = OrderedDict sd" by simp
  from train_keeps_dict[OF t1 this] same have "\<exists>sd. best_model ru = OrderedDict sd" by simp
  from train_keeps_dict[OF t2 this] obtain sd where "best_model r2 = OrderedDict sd" by blast
  with ok show False by (simp add: call_state_dict_def)
qed

lemma teacher_train_keeps_module:
  assumes "teacher_train E epochs path r = Inr r'" and "\<exists>m. best_model r = Module m"
  shows "\<exists>m. best_model r' = Module m"
proof -
  from assms(1) have run:
    "for_each (\<lambda>epoch. for_each (teacher_train_phase E path) [Train, Val]) [0 ..< nat epochs] r = Inr r'"
    by (simp add: teacher_train_def)
  have phase: "\<exists>m. best_model b = Module m"
    if "teacher_train_phase E path ph a = Inr b" "\<exists>m. best_model a = Module m" for ph a b
  proof (cases ph)
    case Train
    with teacher_train_phase_Train[of E path a b] that show ?thesis by (simp add: keeps_best_def)
  next
    case Val
    with that show ?thesis
      by (auto simp: teacher_train_phase_Val_eq Let_def split: if_splits sum.splits)
  qed
  show ?thesis
  proof (rule for_each_preserves[OF run, where P = "\<lambda>s. \<exists>m. best_model s = Module m"])
    show "\<exists>m. best_model r = Module m" by fact
  next
    fix x a b
    assume ab: "for_each (teacher_train_phase E path) [Train, Val] a = Inr b"
      and a: "\<exists>m. best_model a = Module m"
    show "\<exists>m. best_model b = Module m"
      by (rule for_each_preserves[OF ab, where P = "\<lambda>s. \<exists>m. best_model s = Module m"])
        (use a phase in blast)+
  qed
qed

lemma training_init_best:
  assumes "training_init E teacher p d out = Inr (path, r0)"
  shows "best_acc r0 = 0 \<and> best_model r0 = Module teacher \<and> console r0 = out \<and> model r0 = teacher"
  using assms
  by (auto simp: training_init_def split: sum.splits prod.splits if_splits)

lemma training_stage1_parts:
  assumes "training_stage1 E epochs_freeze teacher p d out = Inr (path, r1)"
  shows "\<exists>r0. training_init E teacher p d out = Inr (path, r0) \<and>
              teacher_train E epochs_freeze path r0 = Inr r1"
  using assms
  by (auto simp: training_stage1_def split: sum.splits prod.splits)

text \<open>
  In \<^verbatim>\<open>training\<close> the best snapshot is a module from the first assignment on, so
  \<^verbatim>\<open>teacher.load_state_dict(best_teacher)\<close> raises whenever stage 1 returns: stage 2
  never starts and \<^verbatim>\<open>training\<close> never returns.
\<close>

lemma training_reload_raises:
  assumes "training_stage1 E epochs_freeze teacher p d out = Inr (path, r1)"
  shows "load_state_dict (model r1) (best_model r1) = Inl TypeError"
    and "training_unfreeze E epochs_freeze teacher p d out = Inl TypeError"
    and "training E epochs_freeze epochs_unfreeze teacher p d out = Inl TypeError"
proof -
  from training_stage1_parts[OF assms] obtain r0 where
    i: "training_init E teacher p d out = Inr (path, r0)"
    and t1: "teacher_train E epochs_freeze path r0 = Inr r1" by blast
  from training_init_best[OF i] have "\<exists>m. best_model r0 = Module m" by simp
  from teacher_train_keeps_module[OF t1 this] obtain m where "best_model r1 = Module m" by blast
  then show l: "load_state_dict (model r1) (best_model r1) = Inl TypeError"
    by (simp add: load_state_dict_def)
  with assms show u: "training_unfreeze E epochs_freeze teacher p d out = Inl TypeError"
    by (simp add: training_unfreeze_def)
  then show "training E epochs_freeze epochs_unfreeze teacher p d out = Inl TypeError"
    by (simp add: training_def training_stage2_def)
qed

lemma training_never_returns:
  "training E epochs_freeze epochs_unfreeze teacher p d out \<noteq> Inr x"
proof
  assume ret: "training E epochs_freeze epochs_unfreeze teacher p d out = Inr x"
  then obtain path r1 where "training_stage1 E epochs_freeze teacher p d out = Inr (path, r1)"
    by (auto simp: training_def training_stage2_def training_unfreeze_def
        split: sum.splits prod.splits)
  from training_reload_raises(3)[OF this] ret show False by simp
qed

subsection \<open>The arguments of stage 1\<close>

lemma train_kd_init_parts:
  assumes "train_kd_init E student teacher p d out = Inr (path, r0)"
  shows "\<exists>hk. head_parameters student = Inr hk \<and> model r0 = student \<and>
           param_keys (optimizer r0) = hk \<and>
           sched r0 = \<lparr>mode = MaxMode, factor = 1 / 10, patience = 3, best = None,
                        num_bad_epochs = 0, last_epoch = 0\<rparr>"
  using assms
  by (auto simp: train_kd_init_def Adam_def ReduceLROnPlateau_def
      split: sum.splits prod.splits if_splits)

lemma training_init_parts:
  assumes "training_init E teacher p d out = Inr (path, r0)"
  shows "\<exists>hk. last_child_parameters teacher = Inr hk \<and> model r0 = teacher \<and>
           param_keys (optimizer r0) = hk \<and>
           sched r0 = \<lparr>mode = MaxMode, factor = 1 / 2, patience = 3, best = None,
                        num_bad_epochs = 0, last_epoch = 0\<rparr>"
  using assms
  by (auto simp: training_init_def Adam_def ReduceLROnPlateau_def
      split: sum.splits prod.splits if_splits)

subsection \<open>Reducing the learning rate\<close>

lemma plateau_step_stagnation:
  assumes "num_bad_epochs s = patience s" and "\<not> is_better (mode s) a (best s)"
  shows "lr (snd (plateau_step a (s, opt))) =
           (if lr opt - max (lr opt * factor s) 0 > 1 / 100000000
            then max (lr opt * factor s) 0 else lr opt)"
  using assms by (simp add: plateau_step_def reduce_lr_def Let_def)

lemma plateau_step_no_stagnation:
  assumes "num_bad_epochs s < patience s \<or> is_better (mode s) a (best s)"
  shows "lr (snd (plateau_step a (s, opt))) = lr opt"
  using assms by (auto simp: plateau_step_def reduce_lr_def Let_def)

subsection \<open>Counting epochs\<close>

lemma train_count:
  assumes "train E epochs path r = Inr r'"
  shows "last_epoch (sched r') = last_epoch (sched r) + nat epochs \<and>
         length (val_accuracies (console r')) = length (val_accuracies (console r)) + nat epochs"
proof -
  from train_tracked[OF assms] obtain vs where
    "val_accuracies (console r') = val_accuracies (console r) @ vs" "length vs = nat epochs"
    by blast
  with train_frame[OF assms] show ?thesis by simp
qed

lemma teacher_train_count:
  assumes "teacher_train E epochs path r = Inr r'"
  shows "last_epoch (sched r') = last_epoch (sched r) + nat epochs \<and>
         length (val_accuracies (console r')) = length (val_accuracies (console r)) + nat epochs"
proof -
  from teacher_train_tracked[OF assms] obtain vs where
    "val_accuracies (console r') = val_accuracies (console r) @ vs" "length vs = nat epochs"
    by blast
  with teacher_train_frame[OF assms] show ?thesis by simp
qed

lemma train_kd_stage1_count:
  assumes "train_kd_stage1 E epochs student teacher p d out = Inr (path, r1)"
  shows "last_epoch (sched r1) = nat epochs \<and>
         length (val_accuracies (console r1)) = length (val_accuracies out) + nat epochs"
proof -
  from train_kd_stage1_parts[OF assms] obtain r0 where
    i: "train_kd_init E student teacher p d out = Inr (path, r0)"
    and t: "train E epochs path r0 = Inr r1" by blast
  from train_kd_init_parts[OF i] train_kd_init_best_acc[OF i] train_count[OF t]
  show ?thesis by auto
qed

lemma train_kd_stage2_count:
  assumes "train_kd_stage2 E epochs student teacher p d out = Inr (path, r2)"
  shows "last_epoch (sched r2) = nat epochs \<and>
         length (val_accuracies (console r2)) = length (val_accuracies out) + 2 * nat epochs"
proof -
  from train_kd_stage2_parts[OF assms] obtain ru where
    u: "train_kd_unfreeze E epochs student teacher p d out = Inr (path, ru)"
    and t: "train E epochs path ru = Inr r2" by blast
  from train_kd_unfreeze_parts[OF u] obtain r1 where
    s1: "train_kd_stage1 E epochs student teacher p d out = Inr (path, r1)"
    and c: "console ru = console r1" and s: "last_epoch (sched ru) = 0"
    by auto
  from train_kd_stage1_count[OF s1] train_count[OF t] c s show ?thesis by simp
qed

subsection \<open>The reload in \<^verbatim>\<open>train_kd\<close>\<close>

lemma state_dict_map_parameters:
  assumes "\<And>k p. pname (f k p) = pname p"
  shows "state_dict (map_parameters f m) =
           map (\<lambda>kp. (fst kp, pvalue (f (fst kp) (snd kp)))) (named_parameters m)"
  by (simp add: state_dict_def named_parameters_map_parameters[OF assms] comp_def)

lemma lookup_all_keys:
  assumes "distinct (map fst sd)"
  shows "map (\<lambda>k. (k, map_of sd k)) (map fst sd) = map (\<lambda>kv. (fst kv, Some (snd kv))) sd"
  using assms
proof (induction sd)
  case Nil
  then show ?case by simp
next
  case (Cons kv sd)
  then have "map (\<lambda>k. (k, map_of (kv # sd) k)) (map fst sd) = map (\<lambda>k. (k, map_of sd k)) (map fst sd)"
    by (intro map_cong) (auto simp: image_iff)
  with Cons show ?case by simp
qed

lemma load_state_dict_own_keys:
  assumes keys: "map fst sd = map fst (state_dict m)" and dist: "distinct (map fst sd)"
  shows "\<exists>m'. load_state_dict m (OrderedDict sd) = Inr m' \<and> state_dict m' = sd \<and>
              trainable_flags m' = trainable_flags m"
proof -
  let ?f = "\<lambda>k p. case map_of sd k of Some v \<Rightarrow> p\<lparr>pvalue := v\<rparr> | None \<Rightarrow> p"
  let ?m' = "map_parameters ?f m"
  have pn: "\<And>k p. pname (?f k p) = pname p" by (simp split: option.splits)
  have l: "load_state_dict m (OrderedDict sd) = Inr ?m'"
    using keys by (simp add: load_state_dict_def)
  have k2: "map fst (named_parameters m) = map fst sd"
    using keys by (simp add: state_dict_def comp_def)
  have "state_dict ?m' = map (\<lambda>kp. (fst kp, pvalue (?f (fst kp) (snd kp)))) (named_parameters m)"
    by (rule state_dict_map_parameters[OF pn])
  also have "\<dots> = map (\<lambda>kp. (fst kp, the (map_of sd (fst kp)))) (named_parameters m)"
  proof (rule map_cong[OF refl])
    fix kp assume "kp \<in> set (named_parameters m)"
    then have "fst kp \<in> set (map fst sd)" using k2 by (metis image_eqI set_map)
    then obtain v where "map_of sd (fst kp) = Some v"
      by (metis map_of_eq_None_iff not_Some_eq set_map)
    then show "(fst kp, pvalue (?f (fst kp) (snd kp))) = (fst kp, the (map_of sd (fst kp)))"
      by simp
  qed
  also have "\<dots> = map (\<lambda>k. (k, the (map_of sd k))) (map fst (named_parameters m))"
    by (simp add: comp_def)
  also have "\<dots> = map (\<lambda>kv. (fst kv, the (snd kv))) (map (\<lambda>k. (k, map_of sd k)) (map fst sd))"
    unfolding k2 by (simp add: comp_def)
  also have "\<dots> = sd"
    unfolding lookup_all_keys[OF dist] by (simp add: comp_def)
  finally have sd: "state_dict ?m' = sd" .
  have "trainable_flags ?m' = trainable_flags m"
    unfolding trainable_flags_def named_parameters_map_parameters[OF pn]
    by (simp add: comp_def split: option.splits)
  with l sd show ?thesis by blast
qed

lemma train_best_keys:
  assumes "train E epochs path r = Inr r'"
    and "\<exists>sd. best_model r = OrderedDict sd \<and> map fst sd = map fst (state_dict (model r))"
  shows "\<exists>sd. best_model r' = OrderedDict sd \<and> map fst sd = map fst (state_dict (model r'))"
proof -
  let ?I = "\<lambda>s. \<exists>sd. best_model s = OrderedDict sd \<and> map fst sd = map fst (state_dict (model s))"
  from assms(1) have run:
    "for_each (\<lambda>epoch. for_each (train_phase E path) [Train, Val]) [0 ..< nat epochs] r = Inr r'"
    by (simp add: train_def)
  have phase: "?I b" if ab: "train_phase E path ph a = Inr b" and a: "?I a" for ph a b
  proof -
    from train_phase_frame[OF ab]
    have keys: "map fst (state_dict (model b)) = map fst (state_dict (model a))"
      by (simp add: stage_frame_def same_frame_def state_dict_def comp_def)
    show ?thesis
    proof (cases ph)
      case Train
      with train_phase_Train[of E path a b] ab a keys show ?thesis
        by (auto simp: keeps_best_def)
    next
      case Val
      with ab a keys show ?thesis
        by (auto simp: train_phase_Val_eq Let_def split: if_splits sum.splits)
    qed
  qed
  show ?thesis
  proof (rule for_each_preserves[OF run, where P = ?I])
    show "?I r" by fact
  next
    fix x a b
    assume ab: "for_each (train_phase E path) [Train, Val] a = Inr b" and a: "?I a"
    show "?I b"
      by (rule for_each_preserves[OF ab, where P = ?I]) (use a phase in blast)+
  qed
qed

text \<open>
  In \<^verbatim>\<open>train_kd\<close> the reload does what claim C2 says, for a student whose parameter
  keys are distinct: when the step between the stages returns, the live model holds
  exactly the parameter values of the best snapshot of stage 1 (which the second call of
  \<^verbatim>\<open>train\<close> is also given), and every parameter is marked trainable.
\<close>

lemma train_kd_reload_restores_best:
  assumes u: "train_kd_unfreeze E epochs student teacher p d out = Inr (path, ru)"
    and dist: "distinct (map fst (state_dict student))"
  shows "\<exists>r1. train_kd_stage1 E epochs student teacher p d out = Inr (path, r1) \<and>
           best_model ru = best_model r1 \<and>
           state_dict (model ru) = checkpoint_of (best_model r1) \<and>
           list_all snd (trainable_flags (model ru))"
proof -
  from train_kd_unfreeze_parts[OF u] obtain r1 loaded where
    s1: "train_kd_stage1 E epochs student teacher p d out = Inr (path, r1)"
    and l: "load_state_dict (model r1) (best_model r1) = Inr loaded"
    and m: "model ru = map_parameters (\<lambda>k p. p\<lparr>requires_grad := True\<rparr>) loaded"
    and b: "best_model ru = best_model r1" by blast
  from train_kd_stage1_parts[OF s1] obtain r0 where
    i: "train_kd_init E student teacher p d out = Inr (path, r0)"
    and t: "train E epochs path r0 = Inr r1" by blast
  from train_kd_init_parts[OF i] train_kd_init_best_acc[OF i]
  have r0: "model r0 = student" "best_model r0 = OrderedDict (state_dict student)" by auto
  then have "\<exists>sd. best_model r0 = OrderedDict sd \<and> map fst sd = map fst (state_dict (model r0))"
    by simp
  from train_best_keys[OF t this] obtain sd where
    sd: "best_model r1 = OrderedDict sd" "map fst sd = map fst (state_dict (model r1))" by blast
  from train_frame[OF t] r0(1)
  have "map fst (state_dict (model r1)) = map fst (state_dict student)"
    by (simp add: stage_frame_def same_frame_def state_dict_def comp_def)
  with sd(2) dist have "distinct (map fst sd)" by simp
  from load_state_dict_own_keys[OF sd(2) this] l sd(1)
  have loaded: "state_dict loaded = sd" by auto
  have np: "named_parameters (model ru) =
              map (\<lambda>kp. (fst kp, (snd kp)\<lparr>requires_grad := True\<rparr>)) (named_parameters loaded)"
    unfolding m by (rule named_parameters_map_parameters) simp
  have "state_dict (model ru) = state_dict loaded"
    by (simp add: state_dict_def np comp_def)
  moreover have "list_all snd (trainable_flags (model ru))"
    by (simp add: trainable_flags_def np list_all_iff)
  ultimately show ?thesis
    using s1 b loaded sd(1) by (auto simp: checkpoint_of_def)
qed

subsection \<open>The best state along a run\<close>

lemma train_phase_Val_snap:
  assumes "train_phase E path Val r = Inr r'"
  shows "val_accuracies (console r') = val_accuracies (console r) @ [epoch_acc E Val r'] \<and>
         (if epoch_acc E Val r' > best_acc r
          then best_acc r' = epoch_acc E Val r' \<and>
               best_model r' = OrderedDict (state_dict (model r')) \<and>
               saved (disk r') = (path, state_dict (model r')) # saved (disk r)
          else keeps_best r r')"
proof -
  from train_phase_Val_twice[OF assms]
  have m: "model r' = set_mode Val (model r)" and o: "optimizer r' = optimizer r" by simp_all
  note again = epoch_val_again(1)[OF m o, of E]
  from assms show ?thesis
    unfolding again
    by (auto simp: train_phase_Val_eq Let_def val_accuracies_append keeps_best_def torch_save_def
        split: if_splits sum.splits)
qed

lemma teacher_train_phase_Val_snap:
  assumes "teacher_train_phase E path Val r = Inr r'"
  shows "val_accuracies (console r') = val_accuracies (console r) @ [epoch_acc E Val r'] \<and>
         (if epoch_acc E Val r' > best_acc r
          then best_acc r' = epoch_acc E Val r' \<and>
               best_model r' = Module (model r') \<and>
               saved (disk r') = (path, state_dict (model r')) # saved (disk r)
          else keeps_best r r')"
proof -
  from teacher_train_phase_Val_twice[OF assms]
  have m: "model r' = set_mode Val (model r)" and o: "optimizer r' = optimizer r" by simp_all
  note again = epoch_val_again(1)[OF m o, of E]
  from assms show ?thesis
    unfolding again
    by (auto simp: teacher_train_phase_Val_eq Let_def val_accuracies_append keeps_best_def
        torch_save_def split: if_splits sum.splits)
qed

lemma run_rule:
  assumes T: "\<And>r r1. phase_fn Train r = Inr r1 \<Longrightarrow>
                 keeps_best r r1 \<and> val_accuracies (console r1) = val_accuracies (console r)"
    and V: "\<And>r1 r2. phase_fn Val r1 = Inr r2 \<Longrightarrow>
                 val_accuracies (console r2) = val_accuracies (console r1) @ [acc r2] \<and>
                 (if acc r2 > best_acc r1
                  then best_acc r2 = acc r2 \<and> best_model r2 = snap (model r2) \<and>
                       saved (disk r2) = (path, state_dict (model r2)) # saved (disk r1)
                  else keeps_best r1 r2)"
    and run: "for_each (\<lambda>epoch. for_each phase_fn [Train, Val]) xs r = Inr r'"
  shows "length (for_each_trace (\<lambda>epoch. for_each phase_fn [Train, Val]) xs r) = length xs \<and>
         last (r # for_each_trace (\<lambda>epoch. for_each phase_fn [Train, Val]) xs r) = r' \<and>
         val_accuracies (console r') =
           val_accuracies (console r) @
             map acc (for_each_trace (\<lambda>epoch. for_each phase_fn [Train, Val]) xs r) \<and>
         (best_acc r', best_model r', saved (disk r')) =
           best_state_rule snap path
             (map (\<lambda>s. (acc s, model s))
                (for_each_trace (\<lambda>epoch. for_each phase_fn [Train, Val]) xs r))
             (best_acc r, best_model r, saved (disk r))"
  using run
proof (induction xs arbitrary: r)
  case Nil
  then show ?case by simp
next
  case (Cons x xs)
  let ?body = "\<lambda>epoch. for_each phase_fn [Train, Val]"
  from for_each_Cons[OF Cons.prems] obtain r2 where
    ep: "for_each phase_fn [Train, Val] r = Inr r2"
    and rest: "for_each ?body xs r2 = Inr r'"
    by blast
  from ep obtain r1 where
    t: "phase_fn Train r = Inr r1" and v: "phase_fn Val r1 = Inr r2"
    unfolding for_each_two by blast
  have tr: "for_each_trace ?body (x # xs) r = r2 # for_each_trace ?body xs r2"
    using ep by (simp del: for_each.simps)
  from T[OF t] have k1: "keeps_best r r1"
    and c1: "val_accuracies (console r1) = val_accuracies (console r)" by simp_all
  from V[OF v] have c2: "val_accuracies (console r2) = val_accuracies (console r1) @ [acc r2]"
    and b2: "if acc r2 > best_acc r1
             then best_acc r2 = acc r2 \<and> best_model r2 = snap (model r2) \<and>
                  saved (disk r2) = (path, state_dict (model r2)) # saved (disk r1)
             else keeps_best r1 r2" by simp_all
  have step: "best_state_rule snap path
                ((acc r2, model r2) # obs) (best_acc r, best_model r, saved (disk r)) =
              best_state_rule snap path obs (best_acc r2, best_model r2, saved (disk r2))" for obs
    using k1 b2 by (auto simp: keeps_best_def)
  from Cons.IH[OF rest] c1 c2 show ?case
    unfolding tr by (simp add: step del: for_each.simps best_state_rule.simps)
qed


lemma train_rule:
  assumes "train E epochs path r = Inr r'"
  shows "length (train_trace E epochs path r) = nat epochs \<and>
         last (r # train_trace E epochs path r) = r' \<and>
         val_accuracies (console r') =
           val_accuracies (console r) @ map (epoch_acc E Val) (train_trace E epochs path r) \<and>
         (best_acc r', best_model r', saved (disk r')) =
           best_state_rule (\<lambda>m. OrderedDict (state_dict m)) path
             (map (\<lambda>s. (epoch_acc E Val s, model s)) (train_trace E epochs path r))
             (best_acc r, best_model r, saved (disk r))"
proof -
  let ?body = "\<lambda>epoch. for_each (train_phase E path) [Train, Val]"
  from assms have run: "for_each ?body [0 ..< nat epochs] r = Inr r'"
    by (simp add: train_def)
  have "length (for_each_trace ?body [0 ..< nat epochs] r) = length [0 ..< nat epochs] \<and>
         last (r # for_each_trace ?body [0 ..< nat epochs] r) = r' \<and>
         val_accuracies (console r') =
           val_accuracies (console r) @
             map (epoch_acc E Val) (for_each_trace ?body [0 ..< nat epochs] r) \<and>
         (best_acc r', best_model r', saved (disk r')) =
           best_state_rule (\<lambda>m. OrderedDict (state_dict m)) path
             (map (\<lambda>s. (epoch_acc E Val s, model s))
                (for_each_trace ?body [0 ..< nat epochs] r))
             (best_acc r, best_model r, saved (disk r))"
  proof (rule run_rule[OF _ _ run])
    fix a b assume "train_phase E path Train a = Inr b"
    from train_phase_Train[OF this]
    show "keeps_best a b \<and> val_accuracies (console b) = val_accuracies (console a)"
      by (simp add: val_accuracies_append)
  next
    fix a b assume "train_phase E path Val a = Inr b"
    then show "val_accuracies (console b) = val_accuracies (console a) @ [epoch_acc E Val b] \<and>
         (if epoch_acc E Val b > best_acc a
          then best_acc b = epoch_acc E Val b \<and>
               best_model b = OrderedDict (state_dict (model b)) \<and>
               saved (disk b) = (path, state_dict (model b)) # saved (disk a)
          else keeps_best a b)"
      by (rule train_phase_Val_snap)
  qed
  then show ?thesis by (simp add: train_trace_def)
qed

lemma teacher_train_rule:
  assumes "teacher_train E epochs path r = Inr r'"
  shows "length (teacher_train_trace E epochs path r) = nat epochs \<and>
         last (r # teacher_train_trace E epochs path r) = r' \<and>
         val_accuracies (console r') =
           val_accuracies (console r) @
             map (epoch_acc E Val) (teacher_train_trace E epochs path r) \<and>
         (best_acc r', best_model r', saved (disk r')) =
           best_state_rule Module path
             (map (\<lambda>s. (epoch_acc E Val s, model s)) (teacher_train_trace E epochs path r))
             (best_acc r, best_model r, saved (disk r))"
proof -
  let ?body = "\<lambda>epoch. for_each (teacher_train_phase E path) [Train, Val]"
  from assms have run: "for_each ?body [0 ..< nat epochs] r = Inr r'"
    by (simp add: teacher_train_def)
  have "length (for_each_trace ?body [0 ..< nat epochs] r) = length [0 ..< nat epochs] \<and>
         last (r # for_each_trace ?body [0 ..< nat epochs] r) = r' \<and>
         val_accuracies (console r') =
           val_accuracies (console r) @
             map (epoch_acc E Val) (for_each_trace ?body [0 ..< nat epochs] r) \<and>
         (best_acc r', best_model r', saved (disk r')) =
           best_state_rule Module path
             (map (\<lambda>s. (epoch_acc E Val s, model s))
                (for_each_trace ?body [0 ..< nat epochs] r))
             (best_acc r, best_model r, saved (disk r))"
  proof (rule run_rule[OF _ _ run])
    fix a b assume "teacher_train_phase E path Train a = Inr b"
    from teacher_train_phase_Train[OF this]
    show "keeps_best a b \<and> val_accuracies (console b) = val_accuracies (console a)"
      by (simp add: val_accuracies_append)
  next
    fix a b assume "teacher_train_phase E path Val a = Inr b"
    then show "val_accuracies (console b) = val_accuracies (console a) @ [epoch_acc E Val b] \<and>
         (if epoch_acc E Val b > best_acc a
          then best_acc b = epoch_acc E Val b \<and>
               best_model b = Module (model b) \<and>
               saved (disk b) = (path, state_dict (model b)) # saved (disk a)
          else keeps_best a b)"
      by (rule teacher_train_phase_Val_snap)
  qed
  then show ?thesis by (simp add: teacher_train_trace_def)
qed

text \<open>
  When the validation accuracies are 0.5, 0.7, 0.6 and 0.9 and the best accuracy was
  below 0.5, the rule copies and writes the live model of the first, the second and the
  fourth validate phase.
\<close>

lemma best_state_rule_scenario:
  assumes "map fst obs = [1 / 2, 7 / 10, 6 / 10, 9 / 10]" and "b0 < 1 / 2"
  shows "best_state_rule snap path obs (b0, c0, files) =
           (9 / 10, snap (snd (obs ! 3)),
            [(path, state_dict (snd (obs ! 3))), (path, state_dict (snd (obs ! 1))),
             (path, state_dict (snd (obs ! 0)))] @ files)"
proof -
  from assms(1) obtain m0 m1 m2 m3 where
    "obs = [(1 / 2, m0), (7 / 10, m1), (6 / 10, m2), (9 / 10, m3)]"
    by (auto simp: map_eq_Cons_conv)
  with assms(2) show ?thesis by simp
qed

section \<open>The claims\<close>

subsection \<open>C1: the last write of the controller\<close>

text \<open>
  Claim C1, at the call
  \<^verbatim>\<open>train_kd(1, student, teacher, 'ckpt.pth')\<close> on the demo network: both calls of
  \<^verbatim>\<open>train\<close> return, the best snapshot is then the ordered dictionary of the second
  epoch, and \<^verbatim>\<open>best_student.state_dict()\<close> raises \<^verbatim>\<open>AttributeError\<close>: the
  controller neither writes the checkpoint once more nor returns.
\<close>

theorem train_kd_final_save_raises:
  "train_kd_stage2 demo_env 1 demo_net demo_net (Some ''ckpt.pth'') demo_disk []
     = Inr (''ckpt.pth'',
            snd (projr (train_kd_stage2 demo_env 1 demo_net demo_net (Some ''ckpt.pth'') demo_disk []))) \<and>
   best_model (snd (projr
       (train_kd_stage2 demo_env 1 demo_net demo_net (Some ''ckpt.pth'') demo_disk [])))
     = OrderedDict [(''backbone.weight'', 1), (''head.weight'', 2)] \<and>
   call_state_dict (OrderedDict [(''backbone.weight'', 1 :: nat), (''head.weight'', 2)])
     = Inl AttributeError \<and>
   train_kd demo_env 1 demo_net demo_net (Some ''ckpt.pth'') demo_disk [] = Inl AttributeError \<and>
   train_kd demo_env 0 demo_net demo_net (Some ''ckpt.pth'') demo_disk [] = Inl AttributeError"
  by code_simp

subsection \<open>C2: reloading the best state between the stages\<close>

text \<open>
  Claim C2, at the call
  \<^verbatim>\<open>training(loaders, dataset_sizes, 1, 1, teacher, 'ckpt.pth')\<close> on the demo network:
  stage 1 returns with a module as best snapshot, and the reload raises
  \<^verbatim>\<open>TypeError\<close>, which ends \<^verbatim>\<open>training\<close> before stage 2.
\<close>

theorem training_reload_fails:
  "training_stage1 demo_env 1 demo_net (Some ''ckpt.pth'') demo_disk []
     = Inr (''ckpt.pth'',
            snd (projr (training_stage1 demo_env 1 demo_net (Some ''ckpt.pth'') demo_disk []))) \<and>
   best_model (snd (projr (training_stage1 demo_env 1 demo_net (Some ''ckpt.pth'') demo_disk [])))
     = Module (model (snd (projr
         (training_stage1 demo_env 1 demo_net (Some ''ckpt.pth'') demo_disk [])))) \<and>
   state_dict (model (snd (projr
         (training_stage1 demo_env 1 demo_net (Some ''ckpt.pth'') demo_disk []))))
     = [(''backbone.weight'', 0), (''head.weight'', 1)] \<and>
   training_unfreeze demo_env 1 demo_net (Some ''ckpt.pth'') demo_disk [] = Inl TypeError \<and>
   training_stage2 demo_env 1 1 demo_net (Some ''ckpt.pth'') demo_disk [] = Inl TypeError \<and>
   training demo_env 1 1 demo_net (Some ''ckpt.pth'') demo_disk [] = Inl TypeError"
  by code_simp

subsection \<open>C3: the best state follows the validation accuracies\<close>

text \<open>
  Claim C3. Take a run of either \<^verbatim>\<open>train\<close> that returns, the states \<open>tr\<close> at the
  end of its epochs and the validation accuracies \<open>vs\<close> of the live models of these
  states. There is one state per epoch, the accuracies are the ones the run printed, and
  best accuracy, best snapshot and checkpoint files are reassigned exactly by the
  accuracies that strictly exceed the best so far: each of them makes the best accuracy
  that accuracy, the best snapshot the copy of the live model of that validate phase (its
  state dictionary in \<^verbatim>\<open>train.py\<close>, the module in \<^verbatim>\<open>teacher_train.py\<close>), and
  writes the state dictionary of that model to the checkpoint path; nothing else is
  written. For the accuracies 0.5, 0.7, 0.6, 0.9 from a best accuracy of 0 the best
  accuracy takes the values 0.5, 0.7, 0.9, and exactly three files are written: the
  models of the first, second and fourth epoch, the last of which is the best snapshot.
\<close>

theorem best_state_tracking:
  assumes "train E epochs path r = Inr r' \<and> snap = (\<lambda>m. OrderedDict (state_dict m)) \<and>
             tr = train_trace E epochs path r \<or>
           teacher_train E epochs path r = Inr r' \<and> snap = Module \<and>
             tr = teacher_train_trace E epochs path r"
    and "vs = map (epoch_acc E Val) tr"
  shows "length tr = nat epochs \<and> last (r # tr) = r' \<and>
         val_accuracies (console r') = val_accuracies (console r) @ vs \<and>
         best_tracked snap path (map (\<lambda>s. (epoch_acc E Val s, model s)) tr) r r' \<and>
         (best_acc r = 0 \<and> vs = [1 / 2, 7 / 10, 6 / 10, 9 / 10] \<longrightarrow>
            improvements (best_acc r) vs = [1 / 2, 7 / 10, 9 / 10] \<and>
            best_acc r' = 9 / 10 \<and>
            length (saved (disk r')) = length (saved (disk r)) + 3 \<and>
            best_model r' = snap (model (tr ! 3)) \<and>
            saved (disk r') =
              [(path, state_dict (model (tr ! 3))), (path, state_dict (model (tr ! 1))),
               (path, state_dict (model (tr ! 0)))] @ saved (disk r))"
proof -
  let ?obs = "map (\<lambda>s. (epoch_acc E Val s, model s)) tr"
  have fst_obs: "map fst ?obs = vs" by (simp add: assms(2) comp_def)
  from assms(1) have rule: "length tr = nat epochs \<and> last (r # tr) = r' \<and>
         val_accuracies (console r') = val_accuracies (console r) @ vs \<and>
         (best_acc r', best_model r', saved (disk r')) =
           best_state_rule snap path ?obs (best_acc r, best_model r, saved (disk r))"
  proof (elim disjE conjE)
    assume a: "train E epochs path r = Inr r'"
      and s: "snap = (\<lambda>m. OrderedDict (state_dict m))"
      and t: "tr = train_trace E epochs path r"
    from train_rule[OF a] show ?thesis by (simp only: assms(2) s t)
  next
    assume a: "teacher_train E epochs path r = Inr r'"
      and s: "snap = Module"
      and t: "tr = teacher_train_trace E epochs path r"
    from teacher_train_rule[OF a] show ?thesis by (simp only: assms(2) s t)
  qed
  from assms(1) obtain vs' ws where
    c: "val_accuracies (console r') = val_accuracies (console r) @ vs'"
    and t: "tracked_by path (improvements (best_acc r) vs') r r' ws"
    using train_tracked teacher_train_tracked by blast
  from c rule have "vs' = vs" by simp
  with t fst_obs have "tracked_by path (improvements (best_acc r) (map fst ?obs)) r r' ws"
    by simp
  with rule have bt: "best_tracked snap path ?obs r r'"
    by (intro tracked_by_best_tracked) simp_all
  have sc: "improvements (best_acc r) vs = [1 / 2, 7 / 10, 9 / 10] \<and>
            best_acc r' = 9 / 10 \<and>
            length (saved (disk r')) = length (saved (disk r)) + 3 \<and>
            best_model r' = snap (model (tr ! 3)) \<and>
            saved (disk r') =
              [(path, state_dict (model (tr ! 3))), (path, state_dict (model (tr ! 1))),
               (path, state_dict (model (tr ! 0)))] @ saved (disk r)"
    if b0: "best_acc r = 0" and v: "vs = [1 / 2, 7 / 10, 6 / 10, 9 / 10]"
  proof -
    from v fst_obs have m: "map fst ?obs = [1 / 2, 7 / 10, 6 / 10, 9 / 10]" by simp
    from v assms(2) have "length tr = 4" by (metis length_map list.size(3,4) numeral_eq_Suc
          One_nat_def Suc_eq_plus1 add_2_eq_Suc' numeral_2_eq_2 numeral_3_eq_3 numeral_Bit0)
    then have nth: "snd (?obs ! 3) = model (tr ! 3)" "snd (?obs ! 1) = model (tr ! 1)"
      "snd (?obs ! 0) = model (tr ! 0)" by simp_all
    from best_state_rule_scenario[OF m, of "best_acc r" snap path "best_model r" "saved (disk r)"]
      rule b0 nth
    have "(best_acc r', best_model r', saved (disk r')) =
           (9 / 10, snap (model (tr ! 3)),
            [(path, state_dict (model (tr ! 3))), (path, state_dict (model (tr ! 1))),
             (path, state_dict (model (tr ! 0)))] @ saved (disk r))"
      by simp
    moreover have "improvements (best_acc r) vs = [1 / 2, 7 / 10, 9 / 10]"
      using b0 v by simp
    ultimately show ?thesis by simp
  qed
  from rule bt sc show ?thesis by blast
qed

text \<open>
  The witness is the demo run of four epochs under either script: the accuracies are
  0.5, 0.7, 0.6 and 0.9, the head parameter of the live model is 1, 2, 3 and 4 at the
  four validate phases, and the files written hold 1, 2 and 4, newest first.
\<close>

theorem best_state_tracking_witness:
  "(train demo_env 4 ''ckpt.pth'' demo_run = Inr (projr (train demo_env 4 ''ckpt.pth'' demo_run)) \<and>
    map (epoch_acc demo_env Val) (train_trace demo_env 4 ''ckpt.pth'' demo_run)
      = [1 / 2, 7 / 10, 6 / 10, 9 / 10] \<and>
    map (\<lambda>s. state_dict (model s)) (train_trace demo_env 4 ''ckpt.pth'' demo_run)
      = [[(''backbone.weight'', 0), (''head.weight'', 1)],
         [(''backbone.weight'', 0), (''head.weight'', 2)],
         [(''backbone.weight'', 0), (''head.weight'', 3)],
         [(''backbone.weight'', 0), (''head.weight'', 4)]] \<and>
    best_acc demo_run = 0 \<and>
    val_accuracies (console (projr (train demo_env 4 ''ckpt.pth'' demo_run)))
      = [1 / 2, 7 / 10, 6 / 10, 9 / 10] \<and>
    best_acc (projr (train demo_env 4 ''ckpt.pth'' demo_run)) = 9 / 10 \<and>
    best_model (projr (train demo_env 4 ''ckpt.pth'' demo_run))
      = OrderedDict [(''backbone.weight'', 0), (''head.weight'', 4)] \<and>
    saved (disk (projr (train demo_env 4 ''ckpt.pth'' demo_run)))
      = [(''ckpt.pth'', [(''backbone.weight'', 0), (''head.weight'', 4)]),
         (''ckpt.pth'', [(''backbone.weight'', 0), (''head.weight'', 2)]),
         (''ckpt.pth'', [(''backbone.weight'', 0), (''head.weight'', 1)])]) \<and>
   (teacher_train demo_env 4 ''ckpt.pth'' demo_teacher_run
      = Inr (projr (teacher_train demo_env 4 ''ckpt.pth'' demo_teacher_run)) \<and>
    map (epoch_acc demo_env Val) (teacher_train_trace demo_env 4 ''ckpt.pth'' demo_teacher_run)
      = [1 / 2, 7 / 10, 6 / 10, 9 / 10] \<and>
    best_acc demo_teacher_run = 0 \<and>
    best_acc (projr (teacher_train demo_env 4 ''ckpt.pth'' demo_teacher_run)) = 9 / 10 \<and>
    best_model (projr (teacher_train demo_env 4 ''ckpt.pth'' demo_teacher_run))
      = Module (model (teacher_train_trace demo_env 4 ''ckpt.pth'' demo_teacher_run ! 3)) \<and>
    state_dict (model (teacher_train_trace demo_env 4 ''ckpt.pth'' demo_teacher_run ! 3))
      = [(''backbone.weight'', 0), (''head.weight'', 4)] \<and>
    saved (disk (projr (teacher_train demo_env 4 ''ckpt.pth'' demo_teacher_run)))
      = [(''ckpt.pth'', [(''backbone.weight'', 0), (''head.weight'', 4)]),
         (''ckpt.pth'', [(''backbone.weight'', 0), (''head.weight'', 2)]),
         (''ckpt.pth'', [(''backbone.weight'', 0), (''head.weight'', 1)])])"
proof -
  let ?r = "projr (train demo_env 4 ''ckpt.pth'' demo_run)"
  let ?tr = "train_trace demo_env 4 ''ckpt.pth'' demo_run"
  let ?t = "projr (teacher_train demo_env 4 ''ckpt.pth'' demo_teacher_run)"
  let ?tt = "teacher_train_trace demo_env 4 ''ckpt.pth'' demo_teacher_run"
  have r: "train demo_env 4 ''ckpt.pth'' demo_run = Inr ?r" by code_simp
  have rv: "map (epoch_acc demo_env Val) ?tr = [1 / 2, 7 / 10, 6 / 10, 9 / 10]" by code_simp
  have rs: "map (\<lambda>s. state_dict (model s)) ?tr
      = [[(''backbone.weight'', 0), (''head.weight'', 1)],
         [(''backbone.weight'', 0), (''head.weight'', 2)],
         [(''backbone.weight'', 0), (''head.weight'', 3)],
         [(''backbone.weight'', 0), (''head.weight'', 4)]]" by code_simp
  have r0: "best_acc demo_run = 0" "saved (disk demo_run) = []" "console demo_run = []"
    by (simp_all add: demo_run_def demo_disk_def)
  have t: "teacher_train demo_env 4 ''ckpt.pth'' demo_teacher_run = Inr ?t" by code_simp
  have tv: "map (epoch_acc demo_env Val) ?tt = [1 / 2, 7 / 10, 6 / 10, 9 / 10]" by code_simp
  have ts: "map (\<lambda>s. state_dict (model s)) ?tt
      = [[(''backbone.weight'', 0), (''head.weight'', 1)],
         [(''backbone.weight'', 0), (''head.weight'', 2)],
         [(''backbone.weight'', 0), (''head.weight'', 3)],
         [(''backbone.weight'', 0), (''head.weight'', 4)]]" by code_simp
  have t0: "best_acc demo_teacher_run = 0" "saved (disk demo_teacher_run) = []"
    by (simp_all add: demo_teacher_run_def demo_disk_def)
  have nth: "length xs = 4 \<Longrightarrow> map f xs = [a, b, c, d] \<Longrightarrow>
               f (xs ! 0) = a \<and> f (xs ! 1) = b \<and> f (xs ! 3) = d" for f :: "'x \<Rightarrow> 'y" and xs a b c d
    by (auto simp: map_eq_Cons_conv)
  note A = best_state_tracking[OF disjI1[OF conjI[OF r conjI[OF refl refl]]] refl]
  note a1 = A[THEN conjunct1]
  note a3 = A[THEN conjunct2, THEN conjunct2, THEN conjunct1]
  note a5 = A[THEN conjunct2, THEN conjunct2, THEN conjunct2, THEN conjunct2, rule_format,
      OF conjI[OF r0(1) rv]]
  from a1 have la: "length ?tr = 4" by simp
  from a3 rv r0 have 1: "val_accuracies (console ?r) = [1 / 2, 7 / 10, 6 / 10, 9 / 10]"
    by simp
  from a5 r0 nth[OF la rs]
  have 2: "best_acc ?r = 9 / 10"
    "best_model ?r = OrderedDict [(''backbone.weight'', 0), (''head.weight'', 4)]"
    "saved (disk ?r)
      = [(''ckpt.pth'', [(''backbone.weight'', 0), (''head.weight'', 4)]),
         (''ckpt.pth'', [(''backbone.weight'', 0), (''head.weight'', 2)]),
         (''ckpt.pth'', [(''backbone.weight'', 0), (''head.weight'', 1)])]"
    by simp_all
  note B = best_state_tracking[OF disjI2[OF conjI[OF t conjI[OF refl refl]]] refl]
  note b1 = B[THEN conjunct1]
  note b5 = B[THEN conjunct2, THEN conjunct2, THEN conjunct2, THEN conjunct2, rule_format,
      OF conjI[OF t0(1) tv]]
  from b1 have lb: "length ?tt = 4" by simp
  from b5 t0 nth[OF lb ts]
  have 3: "best_acc ?t = 9 / 10"
    "best_model ?t = Module (model (?tt ! 3))"
    "state_dict (model (?tt ! 3)) = [(''backbone.weight'', 0), (''head.weight'', 4)]"
    "saved (disk ?t)
      = [(''ckpt.pth'', [(''backbone.weight'', 0), (''head.weight'', 4)]),
         (''ckpt.pth'', [(''backbone.weight'', 0), (''head.weight'', 2)]),
         (''ckpt.pth'', [(''backbone.weight'', 0), (''head.weight'', 1)])]"
    by simp_all
  from r rv rs r0(1) 1 2 t tv t0(1) 3 show ?thesis by blast
qed

subsection \<open>C4: the best accuracy never decreases\<close>

text \<open>
  Claim C4. Each of the two \<^verbatim>\<open>train\<close> functions returns a best accuracy that is at
  least the one it was given. In \<^verbatim>\<open>train_kd\<close>, whenever the second call of
  \<^verbatim>\<open>train\<close> returns, it was given the best snapshot and the best accuracy that the
  first call returned, so the best accuracy goes from 0 over the result of stage 1 to the
  result of stage 2 without ever decreasing.
\<close>

theorem best_acc_monotone:
  "(train E epochs path r = Inr r' \<longrightarrow> best_acc r \<le> best_acc r') \<and>
   (teacher_train E epochs path r = Inr r' \<longrightarrow> best_acc r \<le> best_acc r') \<and>
   (train_kd_stage2 E n student teacher p d out = Inr (path2, r2) \<longrightarrow>
      (\<exists>r1 ru. train_kd_stage1 E n student teacher p d out = Inr (path2, r1) \<and>
         train_kd_unfreeze E n student teacher p d out = Inr (path2, ru) \<and>
         best_acc ru = best_acc r1 \<and> best_model ru = best_model r1 \<and>
         train E n path2 ru = Inr r2 \<and>
         0 \<le> best_acc r1 \<and> best_acc r1 \<le> best_acc r2))"
proof (intro conjI impI)
  assume "train E epochs path r = Inr r'"
  then show "best_acc r \<le> best_acc r'" by (rule train_mono)
next
  assume "teacher_train E epochs path r = Inr r'"
  then show "best_acc r \<le> best_acc r'" by (rule teacher_train_mono)
next
  assume s2: "train_kd_stage2 E n student teacher p d out = Inr (path2, r2)"
  from train_kd_stage2_parts[OF s2] obtain ru where
    u: "train_kd_unfreeze E n student teacher p d out = Inr (path2, ru)"
    and t2: "train E n path2 ru = Inr r2" by blast
  from train_kd_unfreeze_parts[OF u] obtain r1 where
    s1: "train_kd_stage1 E n student teacher p d out = Inr (path2, r1)"
    and same: "best_acc ru = best_acc r1" "best_model ru = best_model r1" by blast
  from train_kd_stage1_parts[OF s1] obtain r0 where
    i: "train_kd_init E student teacher p d out = Inr (path2, r0)"
    and t1: "train E n path2 r0 = Inr r1" by blast
  from train_kd_init_best_acc[OF i] train_mono[OF t1] have "0 \<le> best_acc r1" by simp
  moreover from train_mono[OF t2] same have "best_acc r1 \<le> best_acc r2" by simp
  ultimately show "\<exists>r1 ru. train_kd_stage1 E n student teacher p d out = Inr (path2, r1) \<and>
         train_kd_unfreeze E n student teacher p d out = Inr (path2, ru) \<and>
         best_acc ru = best_acc r1 \<and> best_model ru = best_model r1 \<and>
         train E n path2 ru = Inr r2 \<and>
         0 \<le> best_acc r1 \<and> best_acc r1 \<le> best_acc r2"
    using s1 u same t2 by blast
qed

theorem best_acc_monotone_witness:
  "train demo_env 4 ''ckpt.pth'' demo_run = Inr (projr (train demo_env 4 ''ckpt.pth'' demo_run)) \<and>
   best_acc demo_run \<le> best_acc (projr (train demo_env 4 ''ckpt.pth'' demo_run)) \<and>
   best_acc (projr (train demo_env 4 ''ckpt.pth'' demo_run)) = 9 / 10 \<and>
   teacher_train demo_env 4 ''ckpt.pth'' demo_teacher_run
     = Inr (projr (teacher_train demo_env 4 ''ckpt.pth'' demo_teacher_run)) \<and>
   best_acc demo_teacher_run
     \<le> best_acc (projr (teacher_train demo_env 4 ''ckpt.pth'' demo_teacher_run)) \<and>
   train_kd_stage2 demo_env 1 demo_net demo_net (Some ''ckpt.pth'') demo_disk []
     = Inr (''ckpt.pth'',
            snd (projr (train_kd_stage2 demo_env 1 demo_net demo_net (Some ''ckpt.pth'') demo_disk []))) \<and>
   (\<exists>r1 ru. train_kd_stage1 demo_env 1 demo_net demo_net (Some ''ckpt.pth'') demo_disk []
               = Inr (''ckpt.pth'', r1) \<and>
      train_kd_unfreeze demo_env 1 demo_net demo_net (Some ''ckpt.pth'') demo_disk []
               = Inr (''ckpt.pth'', ru) \<and>
      best_acc ru = best_acc r1 \<and> best_model ru = best_model r1 \<and>
      0 \<le> best_acc r1 \<and>
      best_acc r1 \<le> best_acc (snd (projr
        (train_kd_stage2 demo_env 1 demo_net demo_net (Some ''ckpt.pth'') demo_disk []))))"
proof -
  let ?r = "projr (train demo_env 4 ''ckpt.pth'' demo_run)"
  let ?t = "projr (teacher_train demo_env 4 ''ckpt.pth'' demo_teacher_run)"
  let ?s = "snd (projr (train_kd_stage2 demo_env 1 demo_net demo_net (Some ''ckpt.pth'') demo_disk []))"
  have r: "train demo_env 4 ''ckpt.pth'' demo_run = Inr ?r" by code_simp
  have t: "teacher_train demo_env 4 ''ckpt.pth'' demo_teacher_run = Inr ?t" by code_simp
  have s: "train_kd_stage2 demo_env 1 demo_net demo_net (Some ''ckpt.pth'') demo_disk []
     = Inr (''ckpt.pth'', ?s)" by code_simp
  have v: "best_acc ?r = 9 / 10" by code_simp
  note m = best_acc_monotone[of demo_env 4 "''ckpt.pth''" demo_run ?r 1 demo_net demo_net
      "Some ''ckpt.pth''" demo_disk "[]" "''ckpt.pth''" ?s]
  note n = best_acc_monotone[of demo_env 4 "''ckpt.pth''" demo_teacher_run ?t]
  from m r have 1: "best_acc demo_run \<le> best_acc ?r" by blast
  from n t have 2: "best_acc demo_teacher_run \<le> best_acc ?t" by blast
  from m s have 3: "\<exists>r1 ru. train_kd_stage1 demo_env 1 demo_net demo_net (Some ''ckpt.pth'') demo_disk []
               = Inr (''ckpt.pth'', r1) \<and>
      train_kd_unfreeze demo_env 1 demo_net demo_net (Some ''ckpt.pth'') demo_disk []
               = Inr (''ckpt.pth'', ru) \<and>
      best_acc ru = best_acc r1 \<and> best_model ru = best_model r1 \<and>
      0 \<le> best_acc r1 \<and> best_acc r1 \<le> best_acc ?s" by blast
  from r 1 v t 2 s 3 show ?thesis by blast
qed

subsection \<open>C5: what stage 1 trains\<close>

text \<open>
  Claim C5 as stated fails: \<^verbatim>\<open>train_kd\<close> and \<^verbatim>\<open>training\<close> set no
  \<^verbatim>\<open>requires_grad\<close> flag before or during stage 1. On the demo network, whose
  parameters all have the flag set, the backbone parameter is still marked trainable when
  stage 1 starts and when it has returned.
\<close>

theorem stage1_marks_nothing_frozen:
  "head_parameters demo_net = Inr [''head.weight''] \<and>
   last_child_parameters demo_net = Inr [''head.weight''] \<and>
   map fst (backbone_parameters [''head.weight''] demo_net) = [''backbone.weight''] \<and>
   (case train_kd_init demo_env demo_net demo_net (Some ''ckpt.pth'') demo_disk [] of
      Inl e \<Rightarrow> False
    | Inr pr \<Rightarrow> (''backbone.weight'', True) \<in> set (trainable_flags (model (snd pr)))) \<and>
   (case train_kd_stage1 demo_env 1 demo_net demo_net (Some ''ckpt.pth'') demo_disk [] of
      Inl e \<Rightarrow> False
    | Inr pr \<Rightarrow> (''backbone.weight'', True) \<in> set (trainable_flags (model (snd pr)))) \<and>
   (case training_stage1 demo_env 1 demo_net (Some ''ckpt.pth'') demo_disk [] of
      Inl e \<Rightarrow> False
    | Inr pr \<Rightarrow> (''backbone.weight'', True) \<in> set (trainable_flags (model (snd pr))))"
  by code_simp

text \<open>
  Claim C5, amended. Stage 1 leaves every \<^verbatim>\<open>requires_grad\<close> flag as the caller
  set it. The optimizer of stage 1 holds the parameters of the head only (of
  \<^verbatim>\<open>student.head\<close> in \<^verbatim>\<open>train_kd\<close>, of the last child in \<^verbatim>\<open>training\<close>), and
  when stage 1 returns every other parameter has the value and the flag it had at the
  call, for any number of epochs.
\<close>

theorem stage1_updates_head_only:
  "(train_kd_stage1 E epochs student teacher p d out = Inr (path, r1) \<longrightarrow>
      (\<exists>hk. head_parameters student = Inr hk \<and> param_keys (optimizer r1) = hk \<and>
            backbone_parameters hk (model r1) = backbone_parameters hk student \<and>
            trainable_flags (model r1) = trainable_flags student)) \<and>
   (training_stage1 E epochs teacher p d out = Inr (path, r1) \<longrightarrow>
      (\<exists>hk. last_child_parameters teacher = Inr hk \<and> param_keys (optimizer r1) = hk \<and>
            backbone_parameters hk (model r1) = backbone_parameters hk teacher \<and>
            trainable_flags (model r1) = trainable_flags teacher))"
proof (intro conjI impI)
  assume s1: "train_kd_stage1 E epochs student teacher p d out = Inr (path, r1)"
  from train_kd_stage1_parts[OF s1] obtain r0 where
    i: "train_kd_init E student teacher p d out = Inr (path, r0)"
    and t: "train E epochs path r0 = Inr r1" by blast
  from train_kd_init_parts[OF i] obtain hk where
    hk: "head_parameters student = Inr hk" "model r0 = student" "param_keys (optimizer r0) = hk"
    by blast
  from train_frame[OF t] hk
  have "param_keys (optimizer r1) = hk" "same_frame hk student (model r1)"
    by (simp_all add: stage_frame_def)
  with hk(1) show "\<exists>hk. head_parameters student = Inr hk \<and> param_keys (optimizer r1) = hk \<and>
            backbone_parameters hk (model r1) = backbone_parameters hk student \<and>
            trainable_flags (model r1) = trainable_flags student"
    by (simp add: same_frame_def)
next
  assume s1: "training_stage1 E epochs teacher p d out = Inr (path, r1)"
  from training_stage1_parts[OF s1] obtain r0 where
    i: "training_init E teacher p d out = Inr (path, r0)"
    and t: "teacher_train E epochs path r0 = Inr r1" by blast
  from training_init_parts[OF i] obtain hk where
    hk: "last_child_parameters teacher = Inr hk" "model r0 = teacher"
      "param_keys (optimizer r0) = hk"
    by blast
  from teacher_train_frame[OF t] hk
  have "param_keys (optimizer r1) = hk" "same_frame hk teacher (model r1)"
    by (simp_all add: stage_frame_def)
  with hk(1) show "\<exists>hk. last_child_parameters teacher = Inr hk \<and> param_keys (optimizer r1) = hk \<and>
            backbone_parameters hk (model r1) = backbone_parameters hk teacher \<and>
            trainable_flags (model r1) = trainable_flags teacher"
    by (simp add: same_frame_def)
qed

theorem stage1_updates_head_only_witness:
  "train_kd_stage1 demo_env 4 demo_net demo_net (Some ''ckpt.pth'') demo_disk []
     = Inr (''ckpt.pth'',
            snd (projr (train_kd_stage1 demo_env 4 demo_net demo_net (Some ''ckpt.pth'') demo_disk []))) \<and>
   state_dict (model (snd (projr
       (train_kd_stage1 demo_env 4 demo_net demo_net (Some ''ckpt.pth'') demo_disk []))))
     = [(''backbone.weight'', 0), (''head.weight'', 4)] \<and>
   backbone_parameters [''head.weight''] (model (snd (projr
       (train_kd_stage1 demo_env 4 demo_net demo_net (Some ''ckpt.pth'') demo_disk []))))
     = backbone_parameters [''head.weight''] demo_net \<and>
   training_stage1 demo_env 4 demo_net (Some ''ckpt.pth'') demo_disk []
     = Inr (''ckpt.pth'',
            snd (projr (training_stage1 demo_env 4 demo_net (Some ''ckpt.pth'') demo_disk []))) \<and>
   backbone_parameters [''head.weight''] (model (snd (projr
       (training_stage1 demo_env 4 demo_net (Some ''ckpt.pth'') demo_disk []))))
     = backbone_parameters [''head.weight''] demo_net"
proof -
  let ?a = "snd (projr (train_kd_stage1 demo_env 4 demo_net demo_net (Some ''ckpt.pth'') demo_disk []))"
  let ?b = "snd (projr (training_stage1 demo_env 4 demo_net (Some ''ckpt.pth'') demo_disk []))"
  have a: "train_kd_stage1 demo_env 4 demo_net demo_net (Some ''ckpt.pth'') demo_disk []
     = Inr (''ckpt.pth'', ?a)" by code_simp
  have b: "training_stage1 demo_env 4 demo_net (Some ''ckpt.pth'') demo_disk []
     = Inr (''ckpt.pth'', ?b)" by code_simp
  have sd: "state_dict (model ?a) = [(''backbone.weight'', 0), (''head.weight'', 4)]"
    by code_simp
  have h: "head_parameters demo_net = Inr [''head.weight'']"
    "last_child_parameters demo_net = Inr [''head.weight'']" by code_simp+
  note p1 = stage1_updates_head_only[THEN conjunct1, rule_format]
  note p2 = stage1_updates_head_only[THEN conjunct2, rule_format]
  from p1[OF a] h(1)
  have 1: "backbone_parameters [''head.weight''] (model ?a)
             = backbone_parameters [''head.weight''] demo_net" by auto
  from p2[OF b] h(2)
  have 2: "backbone_parameters [''head.weight''] (model ?b)
             = backbone_parameters [''head.weight''] demo_net" by auto
  from a sd 1 b 2 show ?thesis by blast
qed

subsection \<open>C6: the scheduler is stepped once per epoch, in the train phase\<close>

text \<open>
  Claim C6. In both scripts a train phase that returns has stepped the scheduler once,
  with one hundred times the train accuracy of the epoch (running corrects over the size
  of the training set), and so the scheduler's step counter has grown by one; a validate
  phase leaves the scheduler as it is. Hence an epoch steps the scheduler exactly once
  and a run of \<^verbatim>\<open>train\<close> exactly once per epoch.
\<close>

theorem scheduler_once_per_epoch:
  "(train_phase E path Train r = Inr r' \<or> teacher_train_phase E path Train r = Inr r' \<longrightarrow>
      (sched r', optimizer r') =
         plateau_step (100 * epoch_acc E Train r)
           (sched r, fst (snd (batch_loop E Train (model r) (optimizer r)))) \<and>
      last_epoch (sched r') = last_epoch (sched r) + 1) \<and>
   (train_phase E path Val r = Inr r' \<or> teacher_train_phase E path Val r = Inr r' \<longrightarrow>
      sched r' = sched r) \<and>
   (for_each (train_phase E path) [Train, Val] r = Inr r' \<or>
    for_each (teacher_train_phase E path) [Train, Val] r = Inr r' \<longrightarrow>
      last_epoch (sched r') = last_epoch (sched r) + 1) \<and>
   (train E epochs path r = Inr r' \<or> teacher_train E epochs path r = Inr r' \<longrightarrow>
      last_epoch (sched r') = last_epoch (sched r) + nat epochs)"
proof (intro conjI impI)
  assume a: "train_phase E path Train r = Inr r' \<or> teacher_train_phase E path Train r = Inr r'"
  then show "(sched r', optimizer r') =
         plateau_step (100 * epoch_acc E Train r)
           (sched r, fst (snd (batch_loop E Train (model r) (optimizer r))))"
    using train_phase_Train_sched teacher_train_phase_Train_sched by blast
  from a show "last_epoch (sched r') = last_epoch (sched r) + 1"
    using train_phase_frame[of E path Train r r'] teacher_train_phase_frame[of E path Train r r']
    by auto
next
  assume "train_phase E path Val r = Inr r' \<or> teacher_train_phase E path Val r = Inr r'"
  then show "sched r' = sched r"
    using train_phase_Val_twice teacher_train_phase_Val_twice by blast
next
  assume "for_each (train_phase E path) [Train, Val] r = Inr r' \<or>
    for_each (teacher_train_phase E path) [Train, Val] r = Inr r'"
  then show "last_epoch (sched r') = last_epoch (sched r) + 1"
  proof
    assume "for_each (train_phase E path) [Train, Val] r = Inr r'"
    with train_phase_frame show ?thesis by (rule epoch_steps_once)
  next
    assume "for_each (teacher_train_phase E path) [Train, Val] r = Inr r'"
    with teacher_train_phase_frame show ?thesis by (rule epoch_steps_once)
  qed
next
  assume "train E epochs path r = Inr r' \<or> teacher_train E epochs path r = Inr r'"
  then show "last_epoch (sched r') = last_epoch (sched r) + nat epochs"
    using train_frame teacher_train_frame by blast
qed

theorem scheduler_once_per_epoch_witness:
  "train_phase demo_env ''ckpt.pth'' Train demo_run
     = Inr (projr (train_phase demo_env ''ckpt.pth'' Train demo_run)) \<and>
   epoch_acc demo_env Train demo_run = 0 \<and>
   sched (projr (train_phase demo_env ''ckpt.pth'' Train demo_run))
     = fst (plateau_step 0 (sched demo_run, demo_optimizer)) \<and>
   last_epoch (sched (projr (train_phase demo_env ''ckpt.pth'' Train demo_run))) = 1 \<and>
   teacher_train_phase demo_env ''ckpt.pth'' Val demo_teacher_run
     = Inr (projr (teacher_train_phase demo_env ''ckpt.pth'' Val demo_teacher_run)) \<and>
   sched (projr (teacher_train_phase demo_env ''ckpt.pth'' Val demo_teacher_run))
     = sched demo_teacher_run \<and>
   for_each (train_phase demo_env ''ckpt.pth'') [Train, Val] demo_run
     = Inr (projr (for_each (train_phase demo_env ''ckpt.pth'') [Train, Val] demo_run)) \<and>
   last_epoch (sched (projr (for_each (train_phase demo_env ''ckpt.pth'') [Train, Val] demo_run)))
     = 1 \<and>
   teacher_train demo_env 4 ''ckpt.pth'' demo_teacher_run
     = Inr (projr (teacher_train demo_env 4 ''ckpt.pth'' demo_teacher_run)) \<and>
   last_epoch (sched (projr (teacher_train demo_env 4 ''ckpt.pth'' demo_teacher_run))) = 4"
proof -
  let ?a = "projr (train_phase demo_env ''ckpt.pth'' Train demo_run)"
  let ?b = "projr (teacher_train_phase demo_env ''ckpt.pth'' Val demo_teacher_run)"
  let ?c = "projr (for_each (train_phase demo_env ''ckpt.pth'') [Train, Val] demo_run)"
  let ?d = "projr (teacher_train demo_env 4 ''ckpt.pth'' demo_teacher_run)"
  have a: "train_phase demo_env ''ckpt.pth'' Train demo_run = Inr ?a" by code_simp
  have b: "teacher_train_phase demo_env ''ckpt.pth'' Val demo_teacher_run = Inr ?b" by code_simp
  have c: "for_each (train_phase demo_env ''ckpt.pth'') [Train, Val] demo_run = Inr ?c" by code_simp
  have d: "teacher_train demo_env 4 ''ckpt.pth'' demo_teacher_run = Inr ?d" by code_simp
  have acc: "epoch_acc demo_env Train demo_run = 0" by code_simp
  have opt: "fst (snd (batch_loop demo_env Train (model demo_run) (optimizer demo_run)))
               = demo_optimizer" by code_simp
  have l0: "last_epoch (sched demo_run) = 0" "last_epoch (sched demo_teacher_run) = 0"
    by (simp_all add: demo_run_def demo_teacher_run_def)
  note p1 = scheduler_once_per_epoch[THEN conjunct1, rule_format]
  note p2 = scheduler_once_per_epoch[THEN conjunct2, THEN conjunct1, rule_format]
  note p3 = scheduler_once_per_epoch[THEN conjunct2, THEN conjunct2, THEN conjunct1, rule_format]
  note p4 = scheduler_once_per_epoch[THEN conjunct2, THEN conjunct2, THEN conjunct2, rule_format]
  from p1[OF disjI1[OF a]] acc opt l0
  have f: "(sched ?a, optimizer ?a) = plateau_step 0 (sched demo_run, demo_optimizer)"
    and 1: "last_epoch (sched ?a) = 1" by simp_all
  from arg_cong[OF f, of fst]
  have 0: "sched ?a = fst (plateau_step 0 (sched demo_run, demo_optimizer))" by simp
  from p2[OF disjI2[OF b]]
  have 2: "sched ?b = sched demo_teacher_run" .
  from p3[OF disjI1[OF c]] l0
  have 3: "last_epoch (sched ?c) = 1" by simp
  from p4[OF disjI2[OF d]] l0
  have 4: "last_epoch (sched ?d) = 4" by simp
  from a acc 0 1 b 2 c 3 d 4 show ?thesis by blast
qed

subsection \<open>C7: how the plateau schedulers are set up\<close>

text \<open>
  Claim C7 as stated fails for \<^verbatim>\<open>train_kd\<close>: its schedulers are built with
  \<^verbatim>\<open>factor=0.1\<close>. On the demo network the scheduler of stage 1 has that factor, and
  five steps with the same metric (one that sets the best value, four without
  improvement, one more than the patience of three) take the learning rate from a
  thousandth to a ten-thousandth, which is not half of it.
\<close>

theorem train_kd_scheduler_not_halving:
  "(case train_kd_init demo_env demo_net demo_net (Some ''ckpt.pth'') demo_disk [] of
      Inl e \<Rightarrow> False
    | Inr pr \<Rightarrow>
        factor (sched (snd pr)) = 1 / 10 \<and> factor (sched (snd pr)) \<noteq> 1 / 2 \<and>
        lr (optimizer (snd pr)) = 1 / 1000 \<and>
        lr (snd (plateau_step 0 (plateau_step 0 (plateau_step 0 (plateau_step 0
              (plateau_step 0 (sched (snd pr), optimizer (snd pr)))))))) = 1 / 10000 \<and>
        lr (snd (plateau_step 0 (plateau_step 0 (plateau_step 0 (plateau_step 0
              (plateau_step 0 (sched (snd pr), optimizer (snd pr))))))))
          \<noteq> lr (optimizer (snd pr)) / 2)"
  by code_simp

text \<open>
  Claim C7, amended. Throughout stage 1 the scheduler of either controller maximizes
  its metric with a patience of 3; throughout stage 2 of \<^verbatim>\<open>train_kd\<close> the patience is
  2. The factor is one half in \<^verbatim>\<open>training\<close> and one tenth in \<^verbatim>\<open>train_kd\<close>. A
  step of a scheduler multiplies the learning rate by the factor when the metric has not
  improved for more than the patience (and the change exceeds 1e-8), and leaves it alone
  otherwise. The mode of the stage 2 schedulers is not part of the statement.
\<close>

theorem plateau_scheduler_setup:
  "(train_kd_stage1 E epochs student teacher p d out = Inr (path, r1) \<longrightarrow>
      mode (sched r1) = MaxMode \<and> patience (sched r1) = 3 \<and> factor (sched r1) = 1 / 10) \<and>
   (train_kd_stage2 E epochs student teacher p d out = Inr (path, r2) \<longrightarrow>
      patience (sched r2) = 2 \<and> factor (sched r2) = 1 / 10) \<and>
   (training_stage1 E epochs student p d out = Inr (path, r1) \<longrightarrow>
      mode (sched r1) = MaxMode \<and> patience (sched r1) = 3 \<and> factor (sched r1) = 1 / 2) \<and>
   (num_bad_epochs s = patience s \<and> \<not> is_better (mode s) a (best s) \<longrightarrow>
      lr (snd (plateau_step a (s, opt))) =
        (if lr opt - max (lr opt * factor s) 0 > 1 / 100000000
         then max (lr opt * factor s) 0 else lr opt)) \<and>
   (num_bad_epochs s < patience s \<or> is_better (mode s) a (best s) \<longrightarrow>
      lr (snd (plateau_step a (s, opt))) = lr opt)"
proof (intro conjI impI)
  assume s1: "train_kd_stage1 E epochs student teacher p d out = Inr (path, r1)"
  from train_kd_stage1_parts[OF s1] obtain r0 where
    i: "train_kd_init E student teacher p d out = Inr (path, r0)"
    and t: "train E epochs path r0 = Inr r1" by blast
  from train_kd_init_parts[OF i] train_frame[OF t]
  show "mode (sched r1) = MaxMode" "patience (sched r1) = 3" "factor (sched r1) = 1 / 10"
    by (auto simp: stage_frame_def)
next
  assume s2: "train_kd_stage2 E epochs student teacher p d out = Inr (path, r2)"
  from train_kd_stage2_parts[OF s2] obtain ru where
    u: "train_kd_unfreeze E epochs student teacher p d out = Inr (path, ru)"
    and t: "train E epochs path ru = Inr r2" by blast
  from train_kd_unfreeze_parts[OF u] train_frame[OF t]
  show "patience (sched r2) = 2" "factor (sched r2) = 1 / 10"
    by (auto simp: stage_frame_def)
next
  assume s1: "training_stage1 E epochs student p d out = Inr (path, r1)"
  from training_stage1_parts[OF s1] obtain r0 where
    i: "training_init E student p d out = Inr (path, r0)"
    and t: "teacher_train E epochs path r0 = Inr r1" by blast
  from training_init_parts[OF i] teacher_train_frame[OF t]
  show "mode (sched r1) = MaxMode" "patience (sched r1) = 3" "factor (sched r1) = 1 / 2"
    by (auto simp: stage_frame_def)
next
  assume "num_bad_epochs s = patience s \<and> \<not> is_better (mode s) a (best s)"
  then show "lr (snd (plateau_step a (s, opt))) =
        (if lr opt - max (lr opt * factor s) 0 > 1 / 100000000
         then max (lr opt * factor s) 0 else lr opt)"
    by (simp add: plateau_step_stagnation)
next
  assume "num_bad_epochs s < patience s \<or> is_better (mode s) a (best s)"
  then show "lr (snd (plateau_step a (s, opt))) = lr opt"
    by (rule plateau_step_no_stagnation)
qed

text \<open>
  The witness runs both controllers on the demo network, and steps the scheduler of
  \<^verbatim>\<open>training\<close> after three steps without improvement: the fourth halves the learning
  rate, while a step that improves leaves it alone.
\<close>

theorem plateau_scheduler_setup_witness:
  "train_kd_stage1 demo_env 1 demo_net demo_net (Some ''ckpt.pth'') demo_disk []
     = Inr (''ckpt.pth'',
            snd (projr (train_kd_stage1 demo_env 1 demo_net demo_net (Some ''ckpt.pth'') demo_disk []))) \<and>
   factor (sched (snd (projr
      (train_kd_stage1 demo_env 1 demo_net demo_net (Some ''ckpt.pth'') demo_disk [])))) = 1 / 10 \<and>
   train_kd_stage2 demo_env 1 demo_net demo_net (Some ''ckpt.pth'') demo_disk []
     = Inr (''ckpt.pth'',
            snd (projr (train_kd_stage2 demo_env 1 demo_net demo_net (Some ''ckpt.pth'') demo_disk []))) \<and>
   patience (sched (snd (projr
      (train_kd_stage2 demo_env 1 demo_net demo_net (Some ''ckpt.pth'') demo_disk [])))) = 2 \<and>
   training_stage1 demo_env 1 demo_net (Some ''ckpt.pth'') demo_disk []
     = Inr (''ckpt.pth'',
            snd (projr (training_stage1 demo_env 1 demo_net (Some ''ckpt.pth'') demo_disk []))) \<and>
   factor (sched (snd (projr
      (training_stage1 demo_env 1 demo_net (Some ''ckpt.pth'') demo_disk [])))) = 1 / 2 \<and>
   num_bad_epochs demo_stagnant = patience demo_stagnant \<and>
   \<not> is_better (mode demo_stagnant) 50 (best demo_stagnant) \<and>
   lr (snd (plateau_step 50 (demo_stagnant, demo_optimizer))) = 1 / 2000 \<and>
   is_better (mode demo_stagnant) 60 (best demo_stagnant) \<and>
   lr (snd (plateau_step 60 (demo_stagnant, demo_optimizer))) = 1 / 1000"
proof -
  let ?a = "snd (projr (train_kd_stage1 demo_env 1 demo_net demo_net (Some ''ckpt.pth'') demo_disk []))"
  let ?b = "snd (projr (train_kd_stage2 demo_env 1 demo_net demo_net (Some ''ckpt.pth'') demo_disk []))"
  let ?c = "snd (projr (training_stage1 demo_env 1 demo_net (Some ''ckpt.pth'') demo_disk []))"
  have a: "train_kd_stage1 demo_env 1 demo_net demo_net (Some ''ckpt.pth'') demo_disk []
     = Inr (''ckpt.pth'', ?a)" by code_simp
  have b: "train_kd_stage2 demo_env 1 demo_net demo_net (Some ''ckpt.pth'') demo_disk []
     = Inr (''ckpt.pth'', ?b)" by code_simp
  have c: "training_stage1 demo_env 1 demo_net (Some ''ckpt.pth'') demo_disk []
     = Inr (''ckpt.pth'', ?c)" by code_simp
  have s: "num_bad_epochs demo_stagnant = patience demo_stagnant"
    "\<not> is_better (mode demo_stagnant) 50 (best demo_stagnant)"
    "is_better (mode demo_stagnant) 60 (best demo_stagnant)"
    by (simp_all add: demo_stagnant_def is_better_def)
  have l: "lr demo_optimizer = 1 / 1000" "factor demo_stagnant = 1 / 2"
    by (simp_all add: demo_optimizer_def demo_stagnant_def)
  note p1 = plateau_scheduler_setup[THEN conjunct1, rule_format]
  note p2 = plateau_scheduler_setup[THEN conjunct2, THEN conjunct1, rule_format]
  note p3 = plateau_scheduler_setup[THEN conjunct2, THEN conjunct2, THEN conjunct1, rule_format]
  note p4 = plateau_scheduler_setup[THEN conjunct2, THEN conjunct2, THEN conjunct2,
      THEN conjunct1, rule_format]
  note p5 = plateau_scheduler_setup[THEN conjunct2, THEN conjunct2, THEN conjunct2,
      THEN conjunct2, rule_format]
  from p1[OF a] have 1: "factor (sched ?a) = 1 / 10" by blast
  from p2[OF b] have 2: "patience (sched ?b) = 2" by blast
  from p3[OF c] have 3: "factor (sched ?c) = 1 / 2" by blast
  from p4[OF conjI[OF s(1) s(2)], of demo_optimizer] l
  have 4: "lr (snd (plateau_step 50 (demo_stagnant, demo_optimizer))) = 1 / 2000" by simp
  from p5[OF disjI2[OF s(3)], of demo_optimizer] l
  have 5: "lr (snd (plateau_step 60 (demo_stagnant, demo_optimizer))) = 1 / 1000" by simp
  from a 1 b 2 c 3 s 4 5 show ?thesis by blast
qed

subsection \<open>C8: the epoch counts of the two stages\<close>

text \<open>
  Claim C8 as stated fails for \<^verbatim>\<open>train_kd\<close>, which has the single parameter
  \<^verbatim>\<open>epochs\<close>: on the demo network no call of it runs one epoch in stage 1 and two
  epochs in stage 2.
\<close>

theorem train_kd_single_epoch_count:
  "\<not> (\<exists>epochs r1 r2.
        train_kd_stage1 demo_env epochs demo_net demo_net (Some ''ckpt.pth'') demo_disk []
          = Inr (''ckpt.pth'', r1) \<and>
        train_kd_stage2 demo_env epochs demo_net demo_net (Some ''ckpt.pth'') demo_disk []
          = Inr (''ckpt.pth'', r2) \<and>
        last_epoch (sched r1) = 1 \<and> last_epoch (sched r2) = 2)"
proof
  assume "\<exists>epochs r1 r2.
        train_kd_stage1 demo_env epochs demo_net demo_net (Some ''ckpt.pth'') demo_disk []
          = Inr (''ckpt.pth'', r1) \<and>
        train_kd_stage2 demo_env epochs demo_net demo_net (Some ''ckpt.pth'') demo_disk []
          = Inr (''ckpt.pth'', r2) \<and>
        last_epoch (sched r1) = 1 \<and> last_epoch (sched r2) = 2"
  then obtain epochs r1 r2 where
    "train_kd_stage1 demo_env epochs demo_net demo_net (Some ''ckpt.pth'') demo_disk []
          = Inr (''ckpt.pth'', r1)"
    "train_kd_stage2 demo_env epochs demo_net demo_net (Some ''ckpt.pth'') demo_disk []
          = Inr (''ckpt.pth'', r2)"
    "last_epoch (sched r1) = 1" "last_epoch (sched r2) = 2" by blast
  with train_kd_stage1_count train_kd_stage2_count show False by fastforce
qed

text \<open>
  Claim C8, amended. \<^verbatim>\<open>training\<close> takes a count for the frozen and a count for the
  unfrozen stage and runs stage 1 for the first: when stage 1 returns, the scheduler has
  been stepped and a validation accuracy printed once per frozen-stage epoch.
  \<^verbatim>\<open>train_kd\<close> takes one count and runs each of its two stages for it.
\<close>

theorem stage_epoch_counts:
  "(training_stage1 E epochs_freeze student p d out = Inr (path, r1) \<longrightarrow>
      last_epoch (sched r1) = nat epochs_freeze \<and>
      length (val_accuracies (console r1)) = length (val_accuracies out) + nat epochs_freeze) \<and>
   (train_kd_stage1 E epochs student teacher p d out = Inr (path, r1) \<longrightarrow>
      last_epoch (sched r1) = nat epochs \<and>
      length (val_accuracies (console r1)) = length (val_accuracies out) + nat epochs) \<and>
   (train_kd_stage2 E epochs student teacher p d out = Inr (path, r2) \<longrightarrow>
      last_epoch (sched r2) = nat epochs \<and>
      length (val_accuracies (console r2)) = length (val_accuracies out) + 2 * nat epochs)"
proof (intro conjI impI)
  assume s1: "training_stage1 E epochs_freeze student p d out = Inr (path, r1)"
  from training_stage1_parts[OF s1] obtain r0 where
    i: "training_init E student p d out = Inr (path, r0)"
    and t: "teacher_train E epochs_freeze path r0 = Inr r1" by blast
  from training_init_parts[OF i] training_init_best[OF i] teacher_train_count[OF t]
  show "last_epoch (sched r1) = nat epochs_freeze"
    "length (val_accuracies (console r1)) = length (val_accuracies out) + nat epochs_freeze"
    by auto
next
  assume s1: "train_kd_stage1 E epochs student teacher p d out = Inr (path, r1)"
  from train_kd_stage1_count[OF s1]
  show "last_epoch (sched r1) = nat epochs"
    "length (val_accuracies (console r1)) = length (val_accuracies out) + nat epochs"
    by simp_all
next
  assume s2: "train_kd_stage2 E epochs student teacher p d out = Inr (path, r2)"
  from train_kd_stage2_count[OF s2]
  show "last_epoch (sched r2) = nat epochs"
    "length (val_accuracies (console r2)) = length (val_accuracies out) + 2 * nat epochs"
    by simp_all
qed

theorem stage_epoch_counts_witness:
  "training_stage1 demo_env 2 demo_net (Some ''ckpt.pth'') demo_disk []
     = Inr (''ckpt.pth'',
            snd (projr (training_stage1 demo_env 2 demo_net (Some ''ckpt.pth'') demo_disk []))) \<and>
   last_epoch (sched (snd (projr
      (training_stage1 demo_env 2 demo_net (Some ''ckpt.pth'') demo_disk [])))) = 2 \<and>
   train_kd_stage1 demo_env 1 demo_net demo_net (Some ''ckpt.pth'') demo_disk []
     = Inr (''ckpt.pth'',
            snd (projr (train_kd_stage1 demo_env 1 demo_net demo_net (Some ''ckpt.pth'') demo_disk []))) \<and>
   last_epoch (sched (snd (projr
      (train_kd_stage1 demo_env 1 demo_net demo_net (Some ''ckpt.pth'') demo_disk [])))) = 1 \<and>
   train_kd_stage2 demo_env 1 demo_net demo_net (Some ''ckpt.pth'') demo_disk []
     = Inr (''ckpt.pth'',
            snd (projr (train_kd_stage2 demo_env 1 demo_net demo_net (Some ''ckpt.pth'') demo_disk []))) \<and>
   last_epoch (sched (snd (projr
      (train_kd_stage2 demo_env 1 demo_net demo_net (Some ''ckpt.pth'') demo_disk [])))) = 1 \<and>
   length (val_accuracies (console (snd (projr
      (train_kd_stage2 demo_env 1 demo_net demo_net (Some ''ckpt.pth'') demo_disk []))))) = 2"
proof -
  let ?a = "snd (projr (training_stage1 demo_env 2 demo_net (Some ''ckpt.pth'') demo_disk []))"
  let ?b = "snd (projr (train_kd_stage1 demo_env 1 demo_net demo_net (Some ''ckpt.pth'') demo_disk []))"
  let ?c = "snd (projr (train_kd_stage2 demo_env 1 demo_net demo_net (Some ''ckpt.pth'') demo_disk []))"
  have a: "training_stage1 demo_env 2 demo_net (Some ''ckpt.pth'') demo_disk []
     = Inr (''ckpt.pth'', ?a)" by code_simp
  have b: "train_kd_stage1 demo_env 1 demo_net demo_net (Some ''ckpt.pth'') demo_disk []
     = Inr (''ckpt.pth'', ?b)" by code_simp
  have c: "train_kd_stage2 demo_env 1 demo_net demo_net (Some ''ckpt.pth'') demo_disk []
     = Inr (''ckpt.pth'', ?c)" by code_simp
  note p1 = stage_epoch_counts[THEN conjunct1, rule_format]
  note p2 = stage_epoch_counts[THEN conjunct2, THEN conjunct1, rule_format]
  note p3 = stage_epoch_counts[THEN conjunct2, THEN conjunct2, rule_format]
  from p1[OF a] have 1: "last_epoch (sched ?a) = 2" by simp
  from p2[OF b] have 2: "last_epoch (sched ?b) = 1" by simp
  from p3[OF c] have 3: "last_epoch (sched ?c) = 1"
    "length (val_accuracies (console ?c)) = 2" by simp_all
  from a 1 b 2 c 3 show ?thesis by blast
qed

subsection \<open>C9: the validate phase is read-only and repeatable\<close>

text \<open>
  Claim C9. A validate phase that returns has only switched the model to evaluation
  mode: every parameter value, the optimizer and the scheduler are as before. Run once
  more on the result, with the same loader, it returns again and prints the same loss
  and the same accuracy, and again changes neither model nor optimizer.
\<close>

theorem validate_phase_repeatable:
  "(train_phase E path Val r = Inr r1 \<longrightarrow>
      state_dict (model r1) = state_dict (model r) \<and>
      trainable_flags (model r1) = trainable_flags (model r) \<and>
      optimizer r1 = optimizer r \<and> sched r1 = sched r \<and>
      last (console r1) = Metrics Val (epoch_loss E Val r) (100 * epoch_acc E Val r) \<and>
      (\<exists>r2. train_phase E path Val r1 = Inr r2 \<and> last (console r2) = last (console r1) \<and>
            model r2 = model r1 \<and> optimizer r2 = optimizer r1)) \<and>
   (teacher_train_phase E path Val r = Inr r1 \<longrightarrow>
      state_dict (model r1) = state_dict (model r) \<and>
      trainable_flags (model r1) = trainable_flags (model r) \<and>
      optimizer r1 = optimizer r \<and> sched r1 = sched r \<and>
      last (console r1) = Metrics Val (epoch_loss E Val r) (100 * epoch_acc E Val r) \<and>
      (\<exists>r2. teacher_train_phase E path Val r1 = Inr r2 \<and>
            last (console r2) = last (console r1) \<and>
            model r2 = model r1 \<and> optimizer r2 = optimizer r1))"
proof (intro conjI impI)
  let ?r2 = "r1\<lparr>console := console r1 @ [metrics_line E Val r]\<rparr>"
  {
    assume f: "model r1 = set_mode Val (model r) \<and> optimizer r1 = optimizer r \<and>
               sched r1 = sched r \<and> last (console r1) = metrics_line E Val r"
    then have "state_dict (model r1) = state_dict (model r)"
      "trainable_flags (model r1) = trainable_flags (model r)"
      "optimizer r1 = optimizer r" "sched r1 = sched r"
      "last (console r1) = Metrics Val (epoch_loss E Val r) (100 * epoch_acc E Val r)"
      "last (console ?r2) = last (console r1) \<and> model ?r2 = model r1 \<and>
       optimizer ?r2 = optimizer r1"
      by (simp_all add: trainable_flags_def metrics_line_def)
  }
  note ro = this
  {
    assume a: "train_phase E path Val r = Inr r1"
    note t = train_phase_Val_twice[OF a]
    from t have f: "model r1 = set_mode Val (model r) \<and> optimizer r1 = optimizer r \<and>
               sched r1 = sched r \<and> last (console r1) = metrics_line E Val r" by blast
    from ro(1)[OF f] show "state_dict (model r1) = state_dict (model r)" .
    from ro(2)[OF f] show "trainable_flags (model r1) = trainable_flags (model r)" .
    from ro(3)[OF f] show "optimizer r1 = optimizer r" .
    from ro(4)[OF f] show "sched r1 = sched r" .
    from ro(5)[OF f]
    show "last (console r1) = Metrics Val (epoch_loss E Val r) (100 * epoch_acc E Val r)" .
    from t ro(6)[OF f]
    show "\<exists>r2. train_phase E path Val r1 = Inr r2 \<and> last (console r2) = last (console r1) \<and>
            model r2 = model r1 \<and> optimizer r2 = optimizer r1" by blast
  }
  {
    assume a: "teacher_train_phase E path Val r = Inr r1"
    note t = teacher_train_phase_Val_twice[OF a]
    from t have f: "model r1 = set_mode Val (model r) \<and> optimizer r1 = optimizer r \<and>
               sched r1 = sched r \<and> last (console r1) = metrics_line E Val r" by blast
    from ro(1)[OF f] show "state_dict (model r1) = state_dict (model r)" .
    from ro(2)[OF f] show "trainable_flags (model r1) = trainable_flags (model r)" .
    from ro(3)[OF f] show "optimizer r1 = optimizer r" .
    from ro(4)[OF f] show "sched r1 = sched r" .
    from ro(5)[OF f]
    show "last (console r1) = Metrics Val (epoch_loss E Val r) (100 * epoch_acc E Val r)" .
    from t ro(6)[OF f]
    show "\<exists>r2. teacher_train_phase E path Val r1 = Inr r2 \<and>
            last (console r2) = last (console r1) \<and>
            model r2 = model r1 \<and> optimizer r2 = optimizer r1" by blast
  }
qed

text \<open>
  The witness validates the demo network after one train phase: the first validation
  finds 5 of 10 correct, which is an improvement and writes the checkpoint; the second
  prints the same line.
\<close>

theorem validate_phase_repeatable_witness:
  "train_phase demo_env ''ckpt.pth'' Val (projr (train_phase demo_env ''ckpt.pth'' Train demo_run))
     = Inr (projr (train_phase demo_env ''ckpt.pth'' Val
              (projr (train_phase demo_env ''ckpt.pth'' Train demo_run)))) \<and>
   last (console (projr (train_phase demo_env ''ckpt.pth'' Val
              (projr (train_phase demo_env ''ckpt.pth'' Train demo_run))))) = Metrics Val 0 50 \<and>
   (\<exists>r2. train_phase demo_env ''ckpt.pth'' Val
            (projr (train_phase demo_env ''ckpt.pth'' Val
              (projr (train_phase demo_env ''ckpt.pth'' Train demo_run)))) = Inr r2 \<and>
         last (console r2) = Metrics Val 0 50) \<and>
   teacher_train_phase demo_env ''ckpt.pth'' Val
       (projr (teacher_train_phase demo_env ''ckpt.pth'' Train demo_teacher_run))
     = Inr (projr (teacher_train_phase demo_env ''ckpt.pth'' Val
              (projr (teacher_train_phase demo_env ''ckpt.pth'' Train demo_teacher_run)))) \<and>
   (\<exists>r2. teacher_train_phase demo_env ''ckpt.pth'' Val
            (projr (teacher_train_phase demo_env ''ckpt.pth'' Val
              (projr (teacher_train_phase demo_env ''ckpt.pth'' Train demo_teacher_run)))) = Inr r2 \<and>
         last (console r2) = Metrics Val 0 50)"
proof -
  let ?s = "projr (train_phase demo_env ''ckpt.pth'' Train demo_run)"
  let ?a = "projr (train_phase demo_env ''ckpt.pth'' Val ?s)"
  let ?t = "projr (teacher_train_phase demo_env ''ckpt.pth'' Train demo_teacher_run)"
  let ?b = "projr (teacher_train_phase demo_env ''ckpt.pth'' Val ?t)"
  have a: "train_phase demo_env ''ckpt.pth'' Val ?s = Inr ?a" by code_simp
  have b: "teacher_train_phase demo_env ''ckpt.pth'' Val ?t = Inr ?b" by code_simp
  have m: "epoch_loss demo_env Val ?s = 0" "epoch_acc demo_env Val ?s = 1 / 2"
    "epoch_loss demo_env Val ?t = 0" "epoch_acc demo_env Val ?t = 1 / 2"
    by code_simp+
  note p1 = validate_phase_repeatable[THEN conjunct1, rule_format]
  note p2 = validate_phase_repeatable[THEN conjunct2, rule_format]
  from p1[OF a] m
  have 1: "last (console ?a) = Metrics Val 0 50"
    "\<exists>r2. train_phase demo_env ''ckpt.pth'' Val ?a = Inr r2 \<and> last (console r2) = Metrics Val 0 50"
    by auto
  from p2[OF b] m
  have 2: "\<exists>r2. teacher_train_phase demo_env ''ckpt.pth'' Val ?b = Inr r2 \<and>
             last (console r2) = Metrics Val 0 50"
    by auto
  from a 1 b 2 show ?thesis by blast
qed

subsection \<open>C10: the test before \<^verbatim>\<open>os.makedirs\<close> in \<^verbatim>\<open>train_kd\<close>\<close>

text \<open>
  Claim C10. Called without a path, \<^verbatim>\<open>train_kd\<close> calls \<^verbatim>\<open>os.makedirs('Weights')\<close>
  exactly when the directory is there already, and then the call raises
  \<^verbatim>\<open>FileExistsError\<close> and so does \<^verbatim>\<open>train_kd\<close>. When the directory is missing,
  the file system is left as it is and the checkpoint path lies in the missing
  directory, so that a write to it fails.
\<close>

theorem weights_directory_test_inverted:
  "(isdir d ''Weights'' \<longrightarrow>
      makedirs ''Weights'' d = Inl FileExistsError \<and>
      train_kd_path student None d = Inl FileExistsError \<and>
      train_kd E epochs student teacher None d out = Inl FileExistsError) \<and>
   (\<not> isdir d ''Weights'' \<longrightarrow>
      train_kd_path student None d = Inr (path_join ''Weights'' (cls student @ ''.pth''), d) \<and>
      (CHR ''/'' \<notin> set (cls student) \<longrightarrow>
         path_join ''Weights'' (cls student @ ''.pth'') = ''Weights/'' @ cls student @ ''.pth'' \<and>
         dirname (path_join ''Weights'' (cls student @ ''.pth'')) = ''Weights'' \<and>
         \<not> isdir d (dirname (path_join ''Weights'' (cls student @ ''.pth''))) \<and>
         torch_save sd (path_join ''Weights'' (cls student @ ''.pth'')) d = Inl FileNotFoundError))"
proof (intro conjI impI)
  assume e: "isdir d ''Weights''"
  then show mk: "makedirs ''Weights'' d = Inl FileExistsError"
    by (simp add: isdir_def makedirs_def)
  with e show p: "train_kd_path student None d = Inl FileExistsError"
    by (simp add: train_kd_path_def)
  then show "train_kd E epochs student teacher None d out = Inl FileExistsError"
    by (simp add: train_kd_def train_kd_stage2_def train_kd_unfreeze_def train_kd_stage1_def
        train_kd_init_def)
next
  assume n: "\<not> isdir d ''Weights''"
  then show "train_kd_path student None d = Inr (path_join ''Weights'' (cls student @ ''.pth''), d)"
    by (simp add: train_kd_path_def)
  assume c: "CHR ''/'' \<notin> set (cls student)"
  then have "\<not> (cls student \<noteq> [] \<and> hd (cls student) = CHR ''/'')"
    by (cases "cls student") auto
  then show j: "path_join ''Weights'' (cls student @ ''.pth'') = ''Weights/'' @ cls student @ ''.pth''"
    by (simp add: path_join_weights)
  with dirname_weights[OF c]
  show dn: "dirname (path_join ''Weights'' (cls student @ ''.pth'')) = ''Weights''" by simp
  with n show "\<not> isdir d (dirname (path_join ''Weights'' (cls student @ ''.pth'')))" by simp
  with dn show "torch_save sd (path_join ''Weights'' (cls student @ ''.pth'')) d = Inl FileNotFoundError"
    by (simp add: torch_save_def)
qed

theorem weights_directory_test_inverted_witness:
  "isdir (\<lparr>dirs = [''Weights''], saved = []\<rparr> :: nat storage) ''Weights'' \<and>
   train_kd demo_env 1 demo_net demo_net None \<lparr>dirs = [''Weights''], saved = []\<rparr> []
     = Inl FileExistsError \<and>
   \<not> isdir demo_disk ''Weights'' \<and> CHR ''/'' \<notin> set (cls demo_net) \<and>
   train_kd_path demo_net None demo_disk = Inr (''Weights/Net.pth'', demo_disk) \<and>
   dirname ''Weights/Net.pth'' = ''Weights'' \<and>
   torch_save [] ''Weights/Net.pth'' demo_disk = Inl FileNotFoundError \<and>
   train_kd demo_env 1 demo_net demo_net None demo_disk [] = Inl FileNotFoundError"
proof -
  let ?w = "\<lparr>dirs = [''Weights''], saved = []\<rparr> :: nat storage"
  have a: "isdir ?w ''Weights''" by (simp add: isdir_def)
  have b: "\<not> isdir demo_disk ''Weights''" by (simp add: isdir_def demo_disk_def)
  have c: "CHR ''/'' \<notin> set (cls demo_net)" by (simp add: demo_net_def)
  have n: "cls demo_net = ''Net''" by (simp add: demo_net_def)
  note p1 = weights_directory_test_inverted[THEN conjunct1, rule_format]
  note p2 = weights_directory_test_inverted[THEN conjunct2, rule_format]
  from p1[OF a, of demo_net demo_env 1 demo_net "[]"]
  have 1: "train_kd demo_env 1 demo_net demo_net None ?w [] = Inl FileExistsError" by blast
  note q0 = p2[OF b, of demo_net "[]"]
  note q = conjI[OF q0[THEN conjunct1] q0[THEN conjunct2, rule_format, OF c], unfolded n]
  from q have j: "path_join ''Weights'' (''Net'' @ ''.pth'') = ''Weights/Net.pth''" by simp
  from q[unfolded j]
  have 2: "train_kd_path demo_net None demo_disk = Inr (''Weights/Net.pth'', demo_disk)"
    "dirname ''Weights/Net.pth'' = ''Weights''"
    "torch_save [] ''Weights/Net.pth'' demo_disk = Inl FileNotFoundError"
    by blast+
  have 3: "train_kd demo_env 1 demo_net demo_net None demo_disk [] = Inl FileNotFoundError"
    by code_simp
  from a 1 b c 2 3 show ?thesis by blast
qed

end
